theory Spec2Isabelle
  imports Complex_Main "HOL-Library.Sublist"
begin

section \<open>Python values, exceptions and string builtins\<close>

text \<open>
  The values that \<^verbatim>\<open>routing_api.py\<close> handles are decoded JSON documents and
  caller-supplied lists and strings. One datatype covers them: \<open>JNull\<close> is Python's
  \<^verbatim>\<open>None\<close>, \<open>JArr\<close> a list, \<open>JObj\<close> a dict with string keys, in insertion
  order (looked up with \<open>map_of\<close>). Strings are lists of bytes; every delimiter the
  source searches for is ASCII, so splitting UTF-8 bytes finds the same occurrences as
  splitting code points.
\<close>

datatype json =
    JNull
  | JBool bool
  | JNum real
  | JStr string
  | JArr "json list"
  | JObj "(string \<times> json) list"

text \<open>
  Exceptions as values. The first seven are \<^verbatim>\<open>HEREError\<close> and its subclasses declared
  in \<^verbatim>\<open>routing_api.py\<close>, each carrying the constructor's argument; the others are the
  Python built-in exceptions that the modelled statements can raise (\<open>ValueError\<close>
  stands for its subclasses UnicodeDecodeError and JSONDecodeError, \<open>RequestException\<close>
  for what the \<^verbatim>\<open>requests\<close> library raises).
\<close>

datatype exn =
    HEREError json
  | InvalidCredentialsError json
  | InvalidInputDataError json
  | WaypointNotFoundError json
  | NoRouteFoundError json
  | LinkIdNotFoundError json
  | RouteNotReconstructedError json
  | KeyError
  | IndexError
  | TypeError
  | AttributeError
  | ValueError
  | RequestException

text \<open>\<^verbatim>\<open>obj[key]\<close> with a string key: a dict raises KeyError on a missing key, every
  other value raises TypeError.\<close>

fun py_getitem :: "json \<Rightarrow> string \<Rightarrow> exn + json" where
  "py_getitem (JObj kvs) k = (case map_of kvs k of None \<Rightarrow> Inl KeyError | Some v \<Rightarrow> Inr v)"
| "py_getitem _ k = Inl TypeError"

text \<open>\<^verbatim>\<open>xs[i]\<close> on a Python list with a non-negative literal index.\<close>

definition list_index :: "'a list \<Rightarrow> nat \<Rightarrow> exn + 'a" where
  "list_index xs i = (if i < length xs then Inr (xs ! i) else Inl IndexError)"

text \<open>\<^verbatim>\<open>obj[i]\<close> with a non-negative literal integer index: lists and strings raise
  IndexError out of range, a dict with string keys raises KeyError, the rest TypeError.\<close>

fun py_index :: "json \<Rightarrow> nat \<Rightarrow> exn + json" where
  "py_index (JArr xs) i = list_index xs i"
| "py_index (JStr s) i = (if i < length s then Inr (JStr [s ! i]) else Inl IndexError)"
| "py_index (JObj kvs) i = Inl KeyError"
| "py_index _ i = Inl TypeError"

text \<open>Python truthiness of a value, as used by \<^verbatim>\<open>if x:\<close> and by the polling library.\<close>

fun truthy :: "json \<Rightarrow> bool" where
  "truthy JNull = False"
| "truthy (JBool b) = b"
| "truthy (JNum x) = (x \<noteq> 0)"
| "truthy (JStr s) = (s \<noteq> [])"
| "truthy (JArr xs) = (xs \<noteq> [])"
| "truthy (JObj kvs) = (kvs \<noteq> [])"

text \<open>
  \<^verbatim>\<open>s.split(sep)\<close> for a non-empty separator: the pieces between the non-overlapping
  occurrences of \<open>sep\<close>, found left to right. (Python raises ValueError for an empty
  separator; every call in the source passes a non-empty literal, and the model returns
  \<open>[s]\<close> there.)
\<close>

function py_split :: "string \<Rightarrow> string \<Rightarrow> string list" where
  "py_split sep s =
     (if sep = [] then [s]
      else if s = [] then [[]]
      else if prefix sep s then [] # py_split sep (drop (length sep) s)
      else (case py_split sep (tl s) of
              [] \<Rightarrow> [[hd s]]
            | p # ps \<Rightarrow> (hd s # p) # ps))"
  by pat_completeness auto
termination
  by (relation "measure (\<lambda>(sep, s). length s)") auto

declare py_split.simps [simp del]

text \<open>\<^verbatim>\<open>sep.join(xs)\<close>.\<close>

fun py_join :: "string \<Rightarrow> string list \<Rightarrow> string" where
  "py_join sep [] = []"
| "py_join sep [x] = x"
| "py_join sep (x # y # ys) = x @ sep @ py_join sep (y # ys)"

text \<open>\<^verbatim>\<open>s.replace(old, new)\<close> for a non-empty \<open>old\<close>: every non-overlapping occurrence,
  left to right, which is \<^verbatim>\<open>new.join(s.split(old))\<close>.\<close>

definition py_replace :: "string \<Rightarrow> string \<Rightarrow> string \<Rightarrow> string" where
  "py_replace old new s = py_join new (py_split old s)"

text \<open>\<^verbatim>\<open>x.split(sep)\<close> on an arbitrary value: only a string has the method.\<close>

fun str_split :: "json \<Rightarrow> string \<Rightarrow> exn + string list" where
  "str_split (JStr s) sep = Inr (py_split sep s)"
| "str_split _ sep = Inl AttributeError"

text \<open>\<^verbatim>\<open>a + b\<close> where one operand is known to be a string: the other one has
  to be a string too, or Python raises TypeError.\<close>

fun str_add :: "json \<Rightarrow> json \<Rightarrow> exn + string" where
  "str_add (JStr a) (JStr b) = Inr (a @ b)"
| "str_add _ _ = Inl TypeError"

section \<open>Route summaries\<close>

definition number_open :: string where
  \<open>number_open = ''<span class="number">''\<close>

definition next_street_open :: string where
  \<open>next_street_open = ''<span class="next-street">''\<close>

definition span_close :: string where
  \<open>span_close = ''</span>''\<close>

text \<open>The expression \<^verbatim>\<open>instruction.split(tag)[1].split("</span>")[0]\<close>, which the
  two maneuver summarizers evaluate inside their \<^verbatim>\<open>try\<close> blocks.\<close>

definition span_text :: "json \<Rightarrow> string \<Rightarrow> exn + string" where
  "span_text instruction tag =
     (case str_split instruction tag of
        Inl e \<Rightarrow> Inl e
      | Inr parts \<Rightarrow>
          (case list_index parts 1 of
             Inl e \<Rightarrow> Inl e
           | Inr rest \<Rightarrow> list_index (py_split span_close rest) 0))"

text \<open>\<^verbatim>\<open>name.replace("(", "").replace(")", "")\<close>.\<close>

definition strip_parens :: "string \<Rightarrow> string" where
  "strip_parens name = py_replace '')'' [] (py_replace ''('' [] name)"

text \<open>\<^verbatim>\<open>if not road_names or road_names[-1] != road_name: road_names.append(road_name)\<close>.\<close>

definition append_if_new :: "string list \<Rightarrow> string \<Rightarrow> string list" where
  "append_if_new road_names road_name =
     (if road_names = [] \<or> last road_names \<noteq> road_name
      then road_names @ [road_name] else road_names)"

text \<open>One iteration of the loop of \<^verbatim>\<open>_get_route_from_non_vehicle_maneuver\<close>: the
  \<^verbatim>\<open>except IndexError: pass\<close> leaves the list as it is, any other exception leaves
  the function.\<close>

definition non_vehicle_step :: "string list \<Rightarrow> json \<Rightarrow> exn + string list" where
  "non_vehicle_step road_names step =
     (case py_getitem step ''instruction'' of
        Inl e \<Rightarrow> Inl e
      | Inr instruction \<Rightarrow>
          (case span_text instruction next_street_open of
             Inl e \<Rightarrow> (if e = IndexError then Inr road_names else Inl e)
           | Inr road_name \<Rightarrow> Inr (append_if_new road_names (strip_parens road_name))))"

text \<open>One iteration of the loop of \<^verbatim>\<open>_get_route_from_vehicle_maneuver\<close>. The inner
  \<^verbatim>\<open>try\<close> (the street name) runs only after the road number was found; an exception
  of the inner block that is not an IndexError passes through the outer handler too.\<close>

definition vehicle_step :: "string list \<Rightarrow> json \<Rightarrow> exn + string list" where
  "vehicle_step road_names step =
     (case py_getitem step ''instruction'' of
        Inl e \<Rightarrow> Inl e
      | Inr instruction \<Rightarrow>
          (case span_text instruction number_open of
             Inl e \<Rightarrow> (if e = IndexError then Inr road_names else Inl e)
           | Inr road_number \<Rightarrow>
               (case span_text instruction next_street_open of
                  Inl e \<Rightarrow>
                    (if e = IndexError
                     then Inr (append_if_new road_names (strip_parens road_number))
                     else Inl e)
                | Inr street_name \<Rightarrow>
                    Inr (append_if_new road_names
                          (strip_parens road_number @ '' - '' @ strip_parens street_name)))))"

text \<open>A \<^verbatim>\<open>for\<close> loop over the steps threading the list \<open>road_names\<close>; an exception
  that a step does not handle ends the loop.\<close>

fun for_steps :: "('s \<Rightarrow> json \<Rightarrow> exn + 's) \<Rightarrow> 's \<Rightarrow> json list \<Rightarrow> exn + 's" where
  "for_steps body acc [] = Inr acc"
| "for_steps body acc (step # steps) =
     (case body acc step of Inl e \<Rightarrow> Inl e | Inr acc' \<Rightarrow> for_steps body acc' steps)"

definition non_vehicle_road_names :: "json list \<Rightarrow> exn + string list" where
  "non_vehicle_road_names maneuver = for_steps non_vehicle_step [] maneuver"

definition vehicle_road_names :: "json list \<Rightarrow> exn + string list" where
  "vehicle_road_names maneuver = for_steps vehicle_step [] maneuver"

definition get_route_from_non_vehicle_maneuver :: "json list \<Rightarrow> exn + string" where
  "get_route_from_non_vehicle_maneuver maneuver =
     (case non_vehicle_road_names maneuver of
        Inl e \<Rightarrow> Inl e
      | Inr road_names \<Rightarrow> Inr (py_join ''; '' road_names))"

definition get_route_from_vehicle_maneuver :: "json list \<Rightarrow> exn + string" where
  "get_route_from_vehicle_maneuver maneuver =
     (case vehicle_road_names maneuver of
        Inl e \<Rightarrow> Inl e
      | Inr road_names \<Rightarrow> Inr (py_join ''; '' road_names))"

text \<open>One iteration of \<^verbatim>\<open>_get_route_from_public_transport_line\<close>:
  \<^verbatim>\<open>lines.append(line_info["lineName"] + " - " + line_info["destination"])\<close>, the
  operands evaluated left to right.\<close>

definition line_step :: "string list \<Rightarrow> json \<Rightarrow> exn + string list" where
  "line_step lines line_info =
     (case py_getitem line_info ''lineName'' of
        Inl e \<Rightarrow> Inl e
      | Inr name \<Rightarrow>
          (case str_add name (JStr '' - '') of
             Inl e \<Rightarrow> Inl e
           | Inr left \<Rightarrow>
               (case py_getitem line_info ''destination'' of
                  Inl e \<Rightarrow> Inl e
                | Inr dest \<Rightarrow>
                    (case str_add (JStr left) dest of
                       Inl e \<Rightarrow> Inl e
                     | Inr line \<Rightarrow> Inr (lines @ [line])))))"

definition get_route_from_public_transport_line :: "json list \<Rightarrow> exn + string" where
  "get_route_from_public_transport_line public_transport_line_segment =
     (case for_steps line_step [] public_transport_line_segment of
        Inl e \<Rightarrow> Inl e
      | Inr lines \<Rightarrow> Inr (py_join ''; '' lines))"

subsection \<open>The summaries as the specification words them\<close>

text \<open>
  The specification describes the summarizers without the loop: each step contributes at
  most one entry, consecutive duplicates are dropped, the rest is joined with \<open>''; ''\<close>.
  These definitions follow that wording and use neither the loops nor the split and
  replace functions above; the theorems below compare them with the loops.
\<close>

text \<open>The text before the first occurrence of a delimiter, the whole text when the
  delimiter does not occur.\<close>

fun text_before :: "string \<Rightarrow> string \<Rightarrow> string" where
  "text_before d [] = []"
| "text_before d (c # s) = (if prefix d (c # s) then [] else c # text_before d s)"

text \<open>The text after the first occurrence of a delimiter, when it occurs.\<close>

fun text_after :: "string \<Rightarrow> string \<Rightarrow> string option" where
  "text_after d [] = None"
| "text_after d (c # s) =
     (if prefix d (c # s) then Some (drop (length d) (c # s)) else text_after d s)"

text \<open>
  \<open>extractable tag s\<close> is the span that \<open>tag\<close> opens in the instruction text \<open>s\<close>,
  when there is one: the text that follows the first occurrence of \<open>tag\<close>, up to the
  next \<open>tag\<close>, the next \<open>span_close\<close> or the end of the instruction, whichever
  comes first.
\<close>

definition extractable :: "string \<Rightarrow> string \<Rightarrow> string option" where
  "extractable tag s =
     (case text_after tag s of
        None \<Rightarrow> None
      | Some rest \<Rightarrow> Some (text_before span_close (text_before tag rest)))"

text \<open>The entry of a step in the words of the specification: the number span and the
  street span as they stand in the instruction.\<close>

definition claimed_vehicle_entry :: "string \<Rightarrow> string option" where
  "claimed_vehicle_entry s =
     (case extractable number_open s of
        None \<Rightarrow> None
      | Some n \<Rightarrow>
          (case extractable next_street_open s of
             None \<Rightarrow> Some n
           | Some street \<Rightarrow> Some (n @ '' - '' @ street)))"

text \<open>A text without its parentheses: every \<open>CHR ''(''\<close> and \<open>CHR '')''\<close> is left
  out.\<close>

definition remove_parens :: "string \<Rightarrow> string" where
  "remove_parens s = filter (\<lambda>c. c \<noteq> CHR ''('' \<and> c \<noteq> CHR '')'') s"

text \<open>The entry of a step with the parentheses of both spans removed.\<close>

definition spec_vehicle_entry :: "string \<Rightarrow> string option" where
  "spec_vehicle_entry s =
     (case extractable number_open s of
        None \<Rightarrow> None
      | Some n \<Rightarrow>
          (case extractable next_street_open s of
             None \<Rightarrow> Some (remove_parens n)
           | Some street \<Rightarrow> Some (remove_parens n @ '' - '' @ remove_parens street)))"

definition spec_non_vehicle_entry :: "string \<Rightarrow> string option" where
  "spec_non_vehicle_entry s = map_option remove_parens (extractable next_street_open s)"

definition spec_summary :: "(string \<Rightarrow> string option) \<Rightarrow> string list \<Rightarrow> string" where
  "spec_summary entry instructions =
     py_join ''; '' (remdups_adj (List.map_filter entry instructions))"

text \<open>A maneuver step whose \<^verbatim>\<open>instruction\<close> field is the string \<open>s\<close>.\<close>

definition has_instruction :: "json \<Rightarrow> string \<Rightarrow> bool" where
  "has_instruction step s = (py_getitem step ''instruction'' = Inr (JStr s))"

text \<open>A line segment whose \<^verbatim>\<open>lineName\<close> and \<^verbatim>\<open>destination\<close> fields are the
  strings \<open>name\<close> and \<open>dest\<close>.\<close>

definition has_line :: "json \<Rightarrow> string \<times> string \<Rightarrow> bool" where
  "has_line line_info nd =
     (py_getitem line_info ''lineName'' = Inr (JStr (fst nd)) \<and>
      py_getitem line_info ''destination'' = Inr (JStr (snd nd)))"

definition spec_line_entry :: "string \<times> string \<Rightarrow> string" where
  "spec_line_entry nd = fst nd @ '' - '' @ snd nd"

section \<open>Requests, replies and the environment\<close>

text \<open>Sequencing of statements that can raise: the first exception ends the block.\<close>

definition sum_bind :: "exn + 'a \<Rightarrow> ('a \<Rightarrow> exn + 'b) \<Rightarrow> exn + 'b" where
  "sum_bind r f = (case r of Inl e \<Rightarrow> Inl e | Inr x \<Rightarrow> f x)"

text \<open>\<^verbatim>\<open>key in obj\<close>: key membership for a dict, element membership for a list, the
  substring test for a string, TypeError for the rest.\<close>

fun py_contains :: "string \<Rightarrow> json \<Rightarrow> exn + bool" where
  "py_contains k (JObj kvs) = Inr (map_of kvs k \<noteq> None)"
| "py_contains k (JArr xs) = Inr (JStr k \<in> set xs)"
| "py_contains k (JStr s) = Inr (sublist k s)"
| "py_contains k _ = Inl TypeError"

text \<open>\<^verbatim>\<open>obj.get(key)\<close>: only a dict has the method; a missing key gives \<^verbatim>\<open>None\<close>.\<close>

fun py_get :: "json \<Rightarrow> string \<Rightarrow> exn + json" where
  "py_get (JObj kvs) k = (case map_of kvs k of None \<Rightarrow> Inr JNull | Some v \<Rightarrow> Inr v)"
| "py_get _ k = Inl AttributeError"

text \<open>The items a \<^verbatim>\<open>for\<close> loop visits: the elements of a list, the characters of a
  string, the keys of a dict; the other values are not iterable.\<close>

fun py_iter :: "json \<Rightarrow> exn + json list" where
  "py_iter (JArr xs) = Inr xs"
| "py_iter (JStr s) = Inr (map (\<lambda>c. JStr [c]) s)"
| "py_iter (JObj kvs) = Inr (map (\<lambda>kv. JStr (fst kv)) kvs)"
| "py_iter _ = Inl TypeError"

text \<open>\<^verbatim>\<open>d[k] = v\<close> on a dict: a present key keeps its place, a new one goes last.\<close>

fun dict_set :: "(string \<times> json) list \<Rightarrow> string \<Rightarrow> json \<Rightarrow> (string \<times> json) list" where
  "dict_set [] k v = [(k, v)]"
| "dict_set (p # ps) k v = (if fst p = k then (k, v) # ps else p # dict_set ps k v)"

text \<open>
  An HTTP response as the code reads it: the status code and the body, which is \<open>None\<close>
  when \<^verbatim>\<open>json.loads(response.content.decode("utf8"))\<close> (or \<^verbatim>\<open>response.json()\<close>)
  cannot decode it.
\<close>

record response =
  status_code :: int
  content :: "json option"

definition response_json :: "response \<Rightarrow> exn + json" where
  "response_json r = (case content r of None \<Rightarrow> Inl ValueError | Some j \<Rightarrow> Inr j)"

text \<open>
  What the code does to the outside, in order: a call of the geocoder for a location
  name, a GET, a POST with its JSON body, a sleep of the polling library.
\<close>

datatype event =
    Geocode string
  | HttpGet string
  | HttpPost string json
  | Sleep nat

text \<open>
  The world is the trace of events so far and the script of the replies that the next
  HTTP requests will receive (a response, or an exception of \<^verbatim>\<open>requests\<close>). A
  statement returns a value, raises, or is \<open>Blocked\<close>: it waits for a reply that the
  script does not hold. \<open>Blocked\<close> is how a finite script shows a call, or the poll loop,
  that has not come back.
\<close>

type_synonym reply = "exn + response"

type_synonym world = "event list \<times> reply list"

datatype 'a outcome = Returns 'a | Raises exn | Blocked

type_synonym 'a io = "world \<Rightarrow> 'a outcome \<times> world"

definition io_bind :: "'a io \<Rightarrow> ('a \<Rightarrow> 'b io) \<Rightarrow> 'b io" where
  "io_bind m f w =
     (case m w of
        (Returns x, w') \<Rightarrow> f x w'
      | (Raises e, w') \<Rightarrow> (Raises e, w')
      | (Blocked, w') \<Rightarrow> (Blocked, w'))"

definition io_of :: "exn + 'a \<Rightarrow> 'a io" where
  "io_of r w = (case r of Inl e \<Rightarrow> (Raises e, w) | Inr x \<Rightarrow> (Returns x, w))"

text \<open>\<^verbatim>\<open>try: m except: raise e\<close>, the bare handler of \<^verbatim>\<open>async_matrix\<close>.\<close>

definition io_except_raise :: "'a io \<Rightarrow> exn \<Rightarrow> 'a io" where
  "io_except_raise m e w =
     (case m w of
        (Returns x, w') \<Rightarrow> (Returns x, w')
      | (Raises _, w') \<Rightarrow> (Raises e, w')
      | (Blocked, w') \<Rightarrow> (Blocked, w'))"

text \<open>\<^verbatim>\<open>requests.get(url)\<close> and \<^verbatim>\<open>requests.post(url, json=body)\<close>: the event is
  recorded and the next reply of the script is the result.\<close>

fun http_request :: "event \<Rightarrow> response io" where
  "http_request ev (tr, []) = (Blocked, (tr @ [ev], []))"
| "http_request ev (tr, r # rs) =
     ((case r of Inl e \<Rightarrow> Raises e | Inr resp \<Rightarrow> Returns resp), (tr @ [ev], rs))"

text \<open>
  What \<^verbatim>\<open>routing_api.py\<close> takes from outside the file: the API key of the instance,
  the name of the function that called the public method
  (\<^verbatim>\<open>sys._getframe(1).f_code.co_name\<close>),
  \<^verbatim>\<open>Utils.build_url\<close>, the geocoder (\<open>free_form\<close> gives the \<^verbatim>\<open>items\<close> of the
  geocoder's response, or the exception it raises), the text that
  \<^verbatim>\<open>str.format\<close> renders for a value, and the \<^verbatim>\<open>__str__()\<close> of a
  \<^verbatim>\<open>RouteMode\<close>. The enum \<^verbatim>\<open>RouteMode\<close> is declared in another file; its members
  that \<^verbatim>\<open>routing_api.py\<close> names are constructors here, \<open>other_mode\<close> stands for the
  rest.
\<close>

datatype RouteMode =
    car
  | truck
  | publicTransport
  | publicTransportTimeTable
  | pedestrian
  | bicycle
  | fastest
  | other_mode string

record env =
  api_key :: json
  caller :: string
  build_url :: "json \<Rightarrow> (string \<times> json) list \<Rightarrow> exn + string"
  free_form :: "string \<Rightarrow> exn + json"
  py_str :: "json \<Rightarrow> string"
  mode_str :: "RouteMode \<Rightarrow> string"

text \<open>The \<^verbatim>\<open>message\<close> of an exception that \<^verbatim>\<open>except (HEREError)\<close> catches: of
  \<^verbatim>\<open>HEREError\<close> and of its subclasses. (\<^verbatim>\<open>HEREError\<close> is declared in
  \<^verbatim>\<open>herepy/error.py\<close>; its message is the argument of the constructor.)\<close>

fun here_message :: "exn \<Rightarrow> json option" where
  "here_message (HEREError m) = Some m"
| "here_message (InvalidCredentialsError m) = Some m"
| "here_message (InvalidInputDataError m) = Some m"
| "here_message (WaypointNotFoundError m) = Some m"
| "here_message (NoRouteFoundError m) = Some m"
| "here_message (LinkIdNotFoundError m) = Some m"
| "here_message (RouteNotReconstructedError m) = Some m"
| "here_message _ = None"

text \<open>The generic error of the file:
  \<^verbatim>\<open>HEREError("Error occured on " + sys._getframe(1).f_code.co_name)\<close>, with the
  name of the function that called the one raising it.\<close>

definition generic_error :: "string \<Rightarrow> exn" where
  "generic_error caller_name = HEREError (JStr (''Error occured on '' @ caller_name))"

text \<open>\<^verbatim>\<open>_get_coordinates_for_location_name\<close>: the geocoder is called; a
  \<^verbatim>\<open>HEREError\<close> becomes a \<^verbatim>\<open>WaypointNotFoundError\<close> with the same message, any other
  exception passes.\<close>

definition geocoded_position :: "env \<Rightarrow> string \<Rightarrow> exn + json" where
  "geocoded_position env location_name =
     sum_bind (free_form env location_name) (\<lambda>items.
     sum_bind (py_index items 0) (\<lambda>item.
     sum_bind (py_getitem item ''position'') (\<lambda>coordinates.
     sum_bind (py_getitem coordinates ''lat'') (\<lambda>lat.
     sum_bind (py_getitem coordinates ''lng'') (\<lambda>lng.
     Inr (JArr [lat, lng]))))))"

definition get_coordinates_for_location_name :: "env \<Rightarrow> string \<Rightarrow> json io" where
  "get_coordinates_for_location_name env location_name w =
     (case geocoded_position env location_name of
        Inl e \<Rightarrow>
          (case here_message e of
             Some m \<Rightarrow> (Raises (WaypointNotFoundError m), (fst w @ [Geocode location_name], snd w))
           | None \<Rightarrow> (Raises e, (fst w @ [Geocode location_name], snd w)))
      | Inr coordinates \<Rightarrow> (Returns coordinates, (fst w @ [Geocode location_name], snd w)))"

section \<open>The error classifier\<close>

text \<open>The first \<^verbatim>\<open>if\<close> of \<^verbatim>\<open>error_from_routing_service_error\<close>: the error it
  returns, or \<open>None\<close> when the function goes on.\<close>

definition unauthorized_error :: "json \<Rightarrow> exn + exn option" where
  "unauthorized_error json_data =
     sum_bind (py_contains ''error'' json_data) (\<lambda>has_error.
       if has_error
       then sum_bind (py_getitem json_data ''error'') (\<lambda>error.
              if error = JStr ''Unauthorized''
              then sum_bind (py_getitem json_data ''error_description'') (\<lambda>description.
                     Inr (Some (InvalidCredentialsError description)))
              else Inr None)
       else Inr None)"

text \<open>The second \<^verbatim>\<open>if\<close>: \<^verbatim>\<open>subtype\<close> and \<^verbatim>\<open>details\<close> are read before the chain
  of comparisons.\<close>

definition subtype_error :: "json \<Rightarrow> exn + exn option" where
  "subtype_error json_data =
     sum_bind (py_contains ''subtype'' json_data) (\<lambda>has_subtype.
       if has_subtype
       then sum_bind (py_getitem json_data ''subtype'') (\<lambda>subtype.
            sum_bind (py_getitem json_data ''details'') (\<lambda>details.
              if subtype = JStr ''InvalidInputData'' then Inr (Some (InvalidInputDataError details))
              else if subtype = JStr ''WaypointNotFound''
                then Inr (Some (WaypointNotFoundError details))
              else if subtype = JStr ''NoRouteFound'' then Inr (Some (NoRouteFoundError details))
              else if subtype = JStr ''LinkIdNotFound''
                then Inr (Some (LinkIdNotFoundError details))
              else if subtype = JStr ''RouteNotReconstructed''
                then Inr (Some (RouteNotReconstructedError details))
              else Inr None))
       else Inr None)"

text \<open>The function returns the exception object (\<open>Inr\<close>); \<open>Inl\<close> is an exception raised
  while classifying. \<open>caller_name\<close> is the name of the function that called the
  classifier.\<close>

definition error_from_routing_service_error :: "string \<Rightarrow> json \<Rightarrow> exn + exn" where
  "error_from_routing_service_error caller_name json_data =
     sum_bind (unauthorized_error json_data) (\<lambda>first.
       case first of
         Some err \<Rightarrow> Inr err
       | None \<Rightarrow>
           sum_bind (subtype_error json_data) (\<lambda>second.
             case second of
               Some err \<Rightarrow> Inr err
             | None \<Rightarrow> Inr (generic_error caller_name)))"

subsection \<open>The classifier as the specification words it\<close>

text \<open>The fixed table from \<^verbatim>\<open>subtype\<close> to the error kind.\<close>

definition subtype_table :: "(string \<times> (json \<Rightarrow> exn)) list" where
  "subtype_table =
     [(''InvalidInputData'', InvalidInputDataError),
      (''WaypointNotFound'', WaypointNotFoundError),
      (''NoRouteFound'', NoRouteFoundError),
      (''LinkIdNotFound'', LinkIdNotFoundError),
      (''RouteNotReconstructed'', RouteNotReconstructedError)]"

definition field :: "(string \<times> json) list \<Rightarrow> string \<Rightarrow> json" where
  "field payload k = (case map_of payload k of None \<Rightarrow> JNull | Some v \<Rightarrow> v)"

text \<open>\<^verbatim>\<open>error\<close> equal to \<^verbatim>\<open>"Unauthorized"\<close> first; otherwise \<^verbatim>\<open>subtype\<close> selects
  from the table by exact match; otherwise the generic kind.\<close>

definition spec_classify :: "string \<Rightarrow> (string \<times> json) list \<Rightarrow> exn" where
  "spec_classify caller_name payload =
     (if map_of payload ''error'' = Some (JStr ''Unauthorized'')
      then InvalidCredentialsError (field payload ''error_description'')
      else (case map_of payload ''subtype'' of
              Some (JStr subtype) \<Rightarrow>
                (case map_of subtype_table subtype of
                   Some kind \<Rightarrow> kind (field payload ''details'')
                 | None \<Rightarrow> generic_error caller_name)
            | _ \<Rightarrow> generic_error caller_name))"

text \<open>The fields that the classifier reads are there: \<^verbatim>\<open>error_description\<close> in an
  Unauthorized payload, \<^verbatim>\<open>details\<close> beside \<^verbatim>\<open>subtype\<close> in any other.\<close>

definition complete_payload :: "(string \<times> json) list \<Rightarrow> bool" where
  "complete_payload payload =
     (if map_of payload ''error'' = Some (JStr ''Unauthorized'')
      then map_of payload ''error_description'' \<noteq> None
      else if map_of payload ''subtype'' \<noteq> None
      then map_of payload ''details'' \<noteq> None
      else True)"

section \<open>Matrix requests\<close>

definition URL_CALCULATE_ROUTE :: string where
  "URL_CALCULATE_ROUTE = ''https://route.ls.hereapi.com/routing/7.2/calculateroute.json''"

definition URL_CALCULATE_MATRIX :: string where
  "URL_CALCULATE_MATRIX = ''https://matrix.router.hereapi.com/v8/matrix''"

text \<open>
  The arguments of \<^verbatim>\<open>sync_matrix\<close> and \<^verbatim>\<open>async_matrix\<close>. An enum argument is
  given by the text of its \<^verbatim>\<open>__str__()\<close> (the enums are truthy, so an optional one
  is set exactly when it is not \<^verbatim>\<open>None\<close>); the others are Python values.
\<close>

record matrix_args =
  origins :: json
  destinations :: json
  matrix_type :: string
  center :: json
  radius :: json
  profile :: "string option"
  departure :: json
  routing_mode :: "string option"
  transport_mode :: "string option"
  matrix_attributes :: "string list option"

text \<open>The dict literal that both methods start from; \<^verbatim>\<open>center[0]\<close> and
  \<^verbatim>\<open>center[1]\<close> can raise.\<close>

definition region_definition :: "matrix_args \<Rightarrow> exn + (string \<times> json) list" where
  "region_definition a =
     sum_bind (py_index (center a) 0) (\<lambda>lat.
     sum_bind (py_index (center a) 1) (\<lambda>lng.
     Inr [(''regionDefinition'',
           JObj [(''type'', JStr (matrix_type a)),
                 (''center'', JObj [(''lat'', lat), (''lng'', lng)]),
                 (''radius'', radius a)])]))"

text \<open>The five \<^verbatim>\<open>if\<close> statements that add the optional fields.\<close>

definition optional_fields ::
  "matrix_args \<Rightarrow> (string \<times> json) list \<Rightarrow> (string \<times> json) list" where
  "optional_fields a request_body =
     (let b1 = (case profile a of
                  None \<Rightarrow> request_body
                | Some p \<Rightarrow> dict_set request_body ''profile'' (JStr p));
          b2 = (if truthy (departure a) then dict_set b1 ''departureTime'' (departure a) else b1);
          b3 = (case routing_mode a of
                  None \<Rightarrow> b2
                | Some m \<Rightarrow> dict_set b2 ''routingMode'' (JStr m));
          b4 = (case transport_mode a of
                  None \<Rightarrow> b3
                | Some m \<Rightarrow> dict_set b3 ''transportMode'' (JStr m));
          b5 = (case matrix_attributes a of
                  None \<Rightarrow> b4
                | Some attrs \<Rightarrow>
                    if attrs = [] then b4
                    else dict_set b4 ''matrixAttributes'' (JStr (py_join '','' attrs)))
      in b5)"

text \<open>One iteration of the loops over \<^verbatim>\<open>origins\<close> and \<^verbatim>\<open>destinations\<close>: a string
  is geocoded, anything else is taken as the waypoint; then
  \<^verbatim>\<open>{"lat": waypoint[0], "lng": waypoint[1]}\<close>.\<close>

definition lat_long :: "env \<Rightarrow> json \<Rightarrow> json io" where
  "lat_long env point =
     io_bind
       (case point of
          JStr location_name \<Rightarrow> get_coordinates_for_location_name env location_name
        | _ \<Rightarrow> io_of (Inr point))
       (\<lambda>waypoint.
          io_of (sum_bind (py_index waypoint 0) (\<lambda>lat.
                 sum_bind (py_index waypoint 1) (\<lambda>lng.
                 Inr (JObj [(''lat'', lat), (''lng'', lng)])))))"

fun lat_long_list :: "env \<Rightarrow> json list \<Rightarrow> json list \<Rightarrow> json list io" where
  "lat_long_list env acc [] = io_of (Inr acc)"
| "lat_long_list env acc (point # points) =
     io_bind (lat_long env point) (\<lambda>ll. lat_long_list env (acc @ [ll]) points)"

text \<open>
  \<^verbatim>\<open>sync_matrix\<close>. After the loop over the destinations the source assigns
  \<^verbatim>\<open>request_body["destinations"] = origin_list\<close> (line 472); the model does the same.
\<close>

definition sync_matrix :: "env \<Rightarrow> matrix_args \<Rightarrow> json io" where
  "sync_matrix env a =
     io_bind (io_of (region_definition a)) (\<lambda>body0.
     io_bind (io_of (py_iter (origins a))) (\<lambda>origin_points.
     io_bind (lat_long_list env [] origin_points) (\<lambda>origin_list.
     io_bind (io_of (py_iter (destinations a))) (\<lambda>destination_points.
     io_bind (lat_long_list env [] destination_points) (\<lambda>destination_list.
     io_bind (io_of (build_url env (JStr URL_CALCULATE_MATRIX)
                       [(''apiKey'', api_key env), (''async'', JStr ''false'')])) (\<lambda>url.
     io_bind (http_request (HttpPost url
                (JObj (dict_set (dict_set (optional_fields a body0)
                         ''origins'' (JArr origin_list))
                         ''destinations'' (JArr origin_list))))) (\<lambda>response.
     io_of (sum_bind (response_json response) (\<lambda>json_data.
            sum_bind (py_get json_data ''matrix'') (\<lambda>matrix.
              if matrix \<noteq> JNull then Inr json_data
              else Inl (generic_error (caller env))))))))))))"

text \<open>The body that \<^verbatim>\<open>async_matrix\<close> posts: the same construction, with
  \<^verbatim>\<open>request_body["destinations"] = destination_list\<close> (line 596).\<close>

definition async_request_body :: "env \<Rightarrow> matrix_args \<Rightarrow> json io" where
  "async_request_body env a =
     io_bind (io_of (region_definition a)) (\<lambda>body0.
     io_bind (io_of (py_iter (origins a))) (\<lambda>origin_points.
     io_bind (lat_long_list env [] origin_points) (\<lambda>origin_list.
     io_bind (io_of (py_iter (destinations a))) (\<lambda>destination_points.
     io_bind (lat_long_list env [] destination_points) (\<lambda>destination_list.
     io_of (Inr (JObj (dict_set (dict_set (optional_fields a body0)
                         ''origins'' (JArr origin_list))
                         ''destinations'' (JArr destination_list)))))))))"

section \<open>The asynchronous matrix job\<close>

text \<open>\<^verbatim>\<open>print("Matrix {} calculation {}".format(d["matrixId"], d["status"]))\<close>: the
  output is not modelled, the two lookups can raise.\<close>

definition print_matrix_status :: "json \<Rightarrow> exn + unit" where
  "print_matrix_status d =
     sum_bind (py_getitem d ''matrixId'') (\<lambda>matrix_id.
     sum_bind (py_getitem d ''status'') (\<lambda>status. Inr ()))"

text \<open>
  \<^verbatim>\<open>__is_correct_response\<close>, the \<^verbatim>\<open>check_success\<close> of the poll: the value it
  returns (\<^verbatim>\<open>json_data\<close> for 303, \<^verbatim>\<open>False\<close> for 200, \<^verbatim>\<open>None\<close> when no branch is
  taken) or the exception it raises. The strings of the two messages are concatenated left
  to right, each field looked up when its turn comes.
\<close>

definition is_correct_response :: "response \<Rightarrow> exn + json" where
  "is_correct_response response =
     sum_bind (response_json response) (\<lambda>json_data.
       if status_code response = 303 then Inr json_data
       else if status_code response = 200
         then sum_bind (print_matrix_status json_data) (\<lambda>_. Inr (JBool False))
       else if status_code response = 401 \<or> status_code response = 403
         then sum_bind (py_getitem json_data ''error'') (\<lambda>error.
              sum_bind (str_add (JStr ''Error occured on __is_correct_response: '') error) (\<lambda>m1.
              sum_bind (py_getitem json_data ''error_description'') (\<lambda>description.
              sum_bind (str_add (JStr (m1 @ '', description: '')) description) (\<lambda>m2.
              Inl (HEREError (JStr m2))))))
       else if status_code response = 404 \<or> status_code response = 500
         then sum_bind (py_getitem json_data ''title'') (\<lambda>title.
              sum_bind (str_add (JStr ''Error occured on __is_correct_response: '') title) (\<lambda>m1.
              sum_bind (py_getitem json_data ''status'') (\<lambda>status.
              sum_bind (str_add (JStr (m1 @ '', status: '')) status) (\<lambda>m2.
              Inl (HEREError (JStr m2))))))
       else Inr JNull)"

text \<open>
  \<^verbatim>\<open>polling.poll(lambda: requests.get(poll_url), check_success=..., step=5,
  poll_forever=True)\<close>. The library calls the target, returns its value when
  \<^verbatim>\<open>check_success\<close> of it is truthy, and otherwise sleeps \<^verbatim>\<open>step\<close> seconds and
  starts again, with no limit; no exception is ignored, so one raised by the target or by
  \<^verbatim>\<open>check_success\<close> leaves the loop. The recursion is on the script of replies: when
  it is used up the loop is still waiting (\<open>Blocked\<close>).
\<close>

fun poll :: "string \<Rightarrow> event list \<Rightarrow> reply list \<Rightarrow> response outcome \<times> world" where
  "poll poll_url tr [] = (Blocked, (tr @ [HttpGet poll_url], []))"
| "poll poll_url tr (Inl e # replies) = (Raises e, (tr @ [HttpGet poll_url], replies))"
| "poll poll_url tr (Inr response # replies) =
     (case is_correct_response response of
        Inl e \<Rightarrow> (Raises e, (tr @ [HttpGet poll_url], replies))
      | Inr success \<Rightarrow>
          if truthy success then (Returns response, (tr @ [HttpGet poll_url], replies))
          else poll poll_url (tr @ [HttpGet poll_url, Sleep 5]) replies)"

text \<open>
  \<^verbatim>\<open>__download_file(url, filename)\<close> is declared in the class without \<^verbatim>\<open>self\<close>:
  called with both parameters it would GET the URL, raise for an error status and write
  the file. Python binds the positional arguments of a call to the parameters and raises
  TypeError, before the body runs, when their number is not the declared one.
\<close>

definition download_file :: "json list \<Rightarrow> json io" where
  "download_file args =
     (case args of
        [url, filename] \<Rightarrow>
          (case url of
             JStr u \<Rightarrow>
               io_bind (http_request (HttpGet u)) (\<lambda>r.
                 if 400 \<le> status_code r then io_of (Inl RequestException)
                 else io_of (Inr filename))
           | _ \<Rightarrow> io_of (Inl RequestException))
      | _ \<Rightarrow> io_of (Inl TypeError))"

text \<open>The instance \<^verbatim>\<open>self\<close> as an argument value; only its presence counts.\<close>

definition self_object :: json where
  "self_object = JObj []"

text \<open>
  The \<^verbatim>\<open>try\<close> block after the poll. \<^verbatim>\<open>self.__download_file()\<close> passes the instance
  as the only argument. When the block ends without an exception the method returns
  \<^verbatim>\<open>None\<close>.
\<close>

definition after_poll :: "env \<Rightarrow> response \<Rightarrow> json io" where
  "after_poll env result =
     io_bind (io_of (response_json result)) (\<lambda>poll_data.
     io_bind (io_of (print_matrix_status poll_data)) (\<lambda>_.
     io_bind (io_of (py_getitem poll_data ''status'')) (\<lambda>status.
       if status = JStr ''completed''
       then io_bind (io_of (py_getitem poll_data ''resultUrl'')) (\<lambda>result_url.
            io_bind (io_of (build_url env result_url [(''apiKey'', api_key env)])) (\<lambda>download_url.
            io_bind (download_file [self_object]) (\<lambda>_. io_of (Inr JNull))))
       else io_bind (io_of (py_getitem poll_data ''error'')) (\<lambda>error.
              if truthy error then io_of (Inl (HEREError error))
              else io_of (Inr JNull)))))"

text \<open>The submission: the POST of the request body. The result is the poll URL when the
  job was accepted (status 202).\<close>

definition submit_matrix :: "env \<Rightarrow> matrix_args \<Rightarrow> string io" where
  "submit_matrix env a =
     io_bind (async_request_body env a) (\<lambda>request_body.
     io_bind (io_of (build_url env (JStr URL_CALCULATE_MATRIX) [(''apiKey'', api_key env)])) (\<lambda>url.
     io_bind (http_request (HttpPost url request_body)) (\<lambda>response.
       if status_code response = 202
       then io_bind (io_of (response_json response)) (\<lambda>json_data.
            io_bind (io_of (print_matrix_status json_data)) (\<lambda>_.
            io_bind (io_of (py_getitem json_data ''statusUrl'')) (\<lambda>status_url.
            io_of (build_url env status_url [(''apiKey'', api_key env)]))))
       else io_of (Inl (generic_error (caller env))))))"

definition async_matrix :: "env \<Rightarrow> matrix_args \<Rightarrow> json io" where
  "async_matrix env a =
     io_bind (submit_matrix env a) (\<lambda>poll_url.
     io_bind (\<lambda>w. poll poll_url (fst w) (snd w)) (\<lambda>result.
     io_except_raise (after_poll env result) (generic_error (caller env))))"

section \<open>Route requests\<close>

text \<open>A \<^verbatim>\<open>departure\<close> or \<^verbatim>\<open>arrival\<close> argument: a \<^verbatim>\<open>datetime.datetime\<close> object,
  given by the text of its \<^verbatim>\<open>isoformat()\<close>, or any other Python value
  (\<open>PyValue JNull\<close> is \<^verbatim>\<open>None\<close>).\<close>

datatype pyarg = PyDatetime string | PyValue json

fun convert_datetime_to_isoformat :: "pyarg \<Rightarrow> json" where
  "convert_datetime_to_isoformat (PyDatetime isoformat) = JStr isoformat"
| "convert_datetime_to_isoformat (PyValue v) = v"

definition is_not_None :: "pyarg \<Rightarrow> bool" where
  "is_not_None x = (x \<noteq> PyValue JNull)"

text \<open>\<^verbatim>\<open>__prepare_mode_values\<close>: every mode followed by \<open>'';''\<close>, the last character
  cut off; \<^verbatim>\<open>None\<close> (the default of \<^verbatim>\<open>_route\<close>) is not iterable.\<close>

definition prepare_mode_values :: "env \<Rightarrow> RouteMode list option \<Rightarrow> exn + string" where
  "prepare_mode_values env modes =
     (case modes of
        None \<Rightarrow> Inl TypeError
      | Some ms \<Rightarrow> Inr (butlast (concat (map (\<lambda>mode. mode_str env mode @ '';'') ms))))"

text \<open>\<^verbatim>\<open>__list_to_waypoint\<close>: \<^verbatim>\<open>str.format("geo!{0},{1}", w[0], w[1])\<close>.\<close>

definition list_to_waypoint :: "env \<Rightarrow> json \<Rightarrow> exn + string" where
  "list_to_waypoint env waypoint =
     sum_bind (py_index waypoint 0) (\<lambda>lat.
     sum_bind (py_index waypoint 1) (\<lambda>lng.
     Inr (''geo!'' @ py_str env lat @ '','' @ py_str env lng)))"

text \<open>The first two statements of \<^verbatim>\<open>_route\<close>, for one waypoint: a string is
  geocoded.\<close>

definition resolve_waypoint :: "env \<Rightarrow> json \<Rightarrow> json io" where
  "resolve_waypoint env waypoint =
     (case waypoint of
        JStr location_name \<Rightarrow> get_coordinates_for_location_name env location_name
      | _ \<Rightarrow> io_of (Inr waypoint))"

text \<open>
  Modelled from the spec: \<^verbatim>\<open>RoutingResponse.new_from_jsondict\<close> is declared in
  \<^verbatim>\<open>herepy/models.py\<close>, which is not among the source files; it constructs the
  typed response from the decoded document. The model of \<^verbatim>\<open>__get\<close> returns the
  decoded document in its place. The classifier is called from \<^verbatim>\<open>__get\<close>, whose
  name it puts in the generic error.
\<close>

definition get_json :: "env \<Rightarrow> string \<Rightarrow> (string \<times> json) list \<Rightarrow> json io" where
  "get_json env base_url data =
     io_bind (io_of (build_url env (JStr base_url) data)) (\<lambda>url.
     io_bind (http_request (HttpGet url)) (\<lambda>response.
     io_of (sum_bind (response_json response) (\<lambda>json_data.
            sum_bind (py_get json_data ''response'') (\<lambda>r.
              if r \<noteq> JNull then Inr json_data
              else sum_bind (error_from_routing_service_error ''__get'' json_data)
                     (\<lambda>err. Inl err))))))"

text \<open>\<^verbatim>\<open>any(mode in modes for mode in candidates)\<close>.\<close>

definition any_mode_in :: "RouteMode list \<Rightarrow> RouteMode list \<Rightarrow> bool" where
  "any_mode_in candidates modes = list_ex (\<lambda>mode. mode \<in> set modes) candidates"

text \<open>
  The end of \<^verbatim>\<open>_route\<close>: the maneuver of the first leg of the first route, and the
  summary that the modes select (none when no branch applies). The attribute
  \<^verbatim>\<open>response\<close> of the typed response is read as the \<^verbatim>\<open>response\<close> field of
  the decoded document.
\<close>

definition over_steps :: "(json list \<Rightarrow> exn + string) \<Rightarrow> json \<Rightarrow> exn + string option" where
  "over_steps summarizer steps =
     sum_bind (py_iter steps) (\<lambda>xs. sum_bind (summarizer xs) (\<lambda>s. Inr (Some s)))"

definition route_short :: "RouteMode list \<Rightarrow> json \<Rightarrow> exn + string option" where
  "route_short modes json_data =
     sum_bind (py_getitem json_data ''response'') (\<lambda>response.
     sum_bind (py_getitem response ''route'') (\<lambda>route.
     sum_bind (py_index route 0) (\<lambda>route0.
     sum_bind (py_getitem route0 ''leg'') (\<lambda>leg.
     sum_bind (py_index leg 0) (\<lambda>leg0.
     sum_bind (py_getitem leg0 ''maneuver'') (\<lambda>maneuver.
       if any_mode_in [car, truck] modes
         then over_steps get_route_from_vehicle_maneuver maneuver
       else if any_mode_in [publicTransport, publicTransportTimeTable] modes
         then sum_bind (py_index route 0) (\<lambda>route0'.
              sum_bind (py_getitem route0' ''publicTransportLine'') (\<lambda>public_transport_line.
              over_steps get_route_from_public_transport_line public_transport_line))
       else if any_mode_in [pedestrian, bicycle] modes
         then over_steps get_route_from_non_vehicle_maneuver maneuver
       else Inr None))))))"

text \<open>
  \<^verbatim>\<open>_route\<close>. The waypoints are resolved and the dict \<^verbatim>\<open>data\<close> is built before
  the test of \<^verbatim>\<open>departure\<close> and \<^verbatim>\<open>arrival\<close>; the GET of the route comes after it.
  The result is the decoded document with the summary.
\<close>

definition route ::
  "env \<Rightarrow> json \<Rightarrow> json \<Rightarrow> RouteMode list option \<Rightarrow> pyarg \<Rightarrow> pyarg \<Rightarrow> (json \<times> string option) io"
  where
  "route env waypoint_a waypoint_b modes departure_arg arrival_arg =
     io_bind (resolve_waypoint env waypoint_a) (\<lambda>a.
     io_bind (resolve_waypoint env waypoint_b) (\<lambda>b.
     io_bind (io_of (list_to_waypoint env a)) (\<lambda>waypoint0.
     io_bind (io_of (list_to_waypoint env b)) (\<lambda>waypoint1.
     io_bind (io_of (prepare_mode_values env modes)) (\<lambda>mode_values.
       if is_not_None departure_arg \<and> is_not_None arrival_arg
       then io_of (Inl (HEREError (JStr ''Specify either departure or arrival, not both.'')))
       else
         io_bind (get_json env URL_CALCULATE_ROUTE
           (let data = [(''waypoint0'', JStr waypoint0), (''waypoint1'', JStr waypoint1),
                        (''mode'', JStr mode_values), (''apikey'', api_key env)];
                data1 = (if is_not_None departure_arg
                         then dict_set data ''departure''
                                (convert_datetime_to_isoformat departure_arg)
                         else data);
                data2 = (if is_not_None arrival_arg
                         then dict_set data1 ''arrival''
                                (convert_datetime_to_isoformat arrival_arg)
                         else data1)
            in data2)) (\<lambda>json_data.
         io_of (sum_bind (route_short (case modes of None \<Rightarrow> [] | Some ms \<Rightarrow> ms) json_data)
                  (\<lambda>summary. Inr (json_data, summary)))))))))"

text \<open>The events that go over the network: the requests and the geocoder calls.\<close>

fun is_network :: "event \<Rightarrow> bool" where
  "is_network (Sleep n) = False"
| "is_network _ = True"

section \<open>An environment for the examples\<close>

text \<open>
  The examples below run the model in this environment: \<open>build_url\<close> appends the
  parameters as a query string to a string URL, the geocoder knows one place, a number is
  rendered as \<open>''#''\<close>, and a mode has the text of its name.
\<close>

definition example_build_url :: "json \<Rightarrow> (string \<times> json) list \<Rightarrow> exn + string" where
  "example_build_url url params =
     (case url of
        JStr u \<Rightarrow>
          Inr (u @ ''?'' @ py_join ''&''
                 (map (\<lambda>kv. fst kv @ ''='' @ (case snd kv of JStr v \<Rightarrow> v | _ \<Rightarrow> ''#'')) params))
      | _ \<Rightarrow> Inl AttributeError)"

definition example_free_form :: "string \<Rightarrow> exn + json" where
  "example_free_form location_name =
     (if location_name = ''Berlin''
      then Inr (JArr [JObj [(''position'', JObj [(''lat'', JNum 52), (''lng'', JNum 13)])]])
      else Inl (HEREError (JStr ''Error occured on free_form'')))"

fun example_mode_str :: "RouteMode \<Rightarrow> string" where
  "example_mode_str car = ''car''"
| "example_mode_str truck = ''truck''"
| "example_mode_str publicTransport = ''publicTransport''"
| "example_mode_str publicTransportTimeTable = ''publicTransportTimeTable''"
| "example_mode_str pedestrian = ''pedestrian''"
| "example_mode_str bicycle = ''bicycle''"
| "example_mode_str fastest = ''fastest''"
| "example_mode_str (other_mode s) = s"

definition example_env :: env where
  "example_env =
     \<lparr>api_key = JStr ''KEY'', caller = ''main'', build_url = example_build_url,
      free_form = example_free_form,
      py_str = (\<lambda>v. case v of JStr s \<Rightarrow> s | _ \<Rightarrow> ''#''),
      mode_str = example_mode_str\<rparr>"

text \<open>A matrix request with one origin and one destination, both given by
  coordinates, and no optional argument.\<close>

definition example_matrix_args :: matrix_args where
  "example_matrix_args =
     \<lparr>origins = JArr [JArr [JNum 52, JNum 13]],
      destinations = JArr [JArr [JNum 48, JNum 11]],
      matrix_type = ''circle'',
      center = JArr [JNum 50, JNum 12],
      radius = JNum 1000,
      profile = None, departure = JNull, routing_mode = None, transport_mode = None,
      matrix_attributes = None\<rparr>"

text \<open>Replies of the matrix service: the job is accepted, it is in progress, it is
  completed (status 303), the key is refused.\<close>

definition example_accepted :: response where
  "example_accepted =
     \<lparr>status_code = 202,
      content = Some (JObj [(''matrixId'', JStr ''m1''), (''status'', JStr ''accepted''),
                            (''statusUrl'', JStr ''https://s/m1'')])\<rparr>"

definition example_running :: response where
  "example_running =
     \<lparr>status_code = 200,
      content = Some (JObj [(''matrixId'', JStr ''m1''), (''status'', JStr ''inProgress'')])\<rparr>"

definition example_done_body :: json where
  "example_done_body =
     JObj [(''matrixId'', JStr ''m1''), (''status'', JStr ''completed''),
           (''resultUrl'', JStr ''https://r/m1'')]"

definition example_done :: response where
  "example_done = \<lparr>status_code = 303, content = Some example_done_body\<rparr>"

definition example_unauthorized_body :: json where
  "example_unauthorized_body =
     JObj [(''error'', JStr ''Unauthorized''), (''error_description'', JStr ''bad key'')]"

definition example_unauthorized :: response where
  "example_unauthorized = \<lparr>status_code = 401, content = Some example_unauthorized_body\<rparr>"

text \<open>The POST that submits \<open>example_matrix_args\<close> in \<open>example_env\<close>.\<close>

definition example_post :: event where
  "example_post =
     HttpPost ''https://matrix.router.hereapi.com/v8/matrix?apiKey=KEY''
       (JObj
         [(''regionDefinition'',
           JObj [(''type'', JStr ''circle''),
                 (''center'', JObj [(''lat'', JNum 50), (''lng'', JNum 12)]),
                 (''radius'', JNum 1000)]),
          (''origins'', JArr [JObj [(''lat'', JNum 52), (''lng'', JNum 13)]]),
          (''destinations'', JArr [JObj [(''lat'', JNum 48), (''lng'', JNum 11)]])])"

section \<open>Predicates on statements and replies\<close>

text \<open>A statement that, from any world, comes back (it is never \<open>Blocked\<close>), reads no
  reply of the script and adds nothing but geocoder calls to the trace.\<close>

definition geocodes_only :: "'a io \<Rightarrow> bool" where
  "geocodes_only m =
     (\<forall>w. \<exists>names. snd (m w) = (fst w @ map Geocode names, snd w) \<and> fst (m w) \<noteq> Blocked)"

text \<open>A poll reply after which the loop goes on: \<^verbatim>\<open>check_success\<close> returns a value
  that is not truthy.\<close>

definition keeps_polling :: "response \<Rightarrow> bool" where
  "keeps_polling r = (case is_correct_response r of Inl e \<Rightarrow> False | Inr v \<Rightarrow> \<not> truthy v)"

text \<open>A status-200 reply of a job in progress: its body carries \<^verbatim>\<open>matrixId\<close> and
  \<^verbatim>\<open>status\<close>.\<close>

definition running :: "response \<Rightarrow> bool" where
  "running r =
     (status_code r = 200 \<and>
      (case content r of None \<Rightarrow> False | Some d \<Rightarrow> print_matrix_status d = Inr ()))"

text \<open>The events of \<open>n\<close> polls that were each followed by the sleep of five seconds.\<close>

definition polls :: "string \<Rightarrow> nat \<Rightarrow> event list" where
  "polls poll_url n = concat (replicate n [HttpGet poll_url, Sleep 5])"

fun is_post :: "event \<Rightarrow> bool" where
  "is_post (HttpPost url body) = True"
| "is_post _ = False"

text \<open>A waypoint given as a list with at least the two coordinates.\<close>

fun coordinate_pair :: "json \<Rightarrow> bool" where
  "coordinate_pair (JArr (lat # lng # rest)) = True"
| "coordinate_pair _ = False"

section \<open>Properties of the string builtins and of the summaries\<close>

lemma py_split_ne: "py_split sep s \<noteq> []"
  apply (induction sep s rule: py_split.induct)
  subgoal for sep s
    apply (subst py_split.simps)
    apply (auto split: list.splits)
    done
  done

lemma py_split_Nil: "sep \<noteq> [] \<Longrightarrow> py_split sep [] = [[]]"
  by (subst py_split.simps) simp

lemma py_split_prefix:
  "sep \<noteq> [] \<Longrightarrow> prefix sep s \<Longrightarrow> py_split sep s = [] # py_split sep (drop (length sep) s)"
  by (subst py_split.simps) auto

lemma py_split_Cons:
  "sep \<noteq> [] \<Longrightarrow> \<not> prefix sep (c # s) \<Longrightarrow>
   py_split sep (c # s) = (c # hd (py_split sep s)) # tl (py_split sep s)"
  using py_split_ne [of sep s]
  by (subst py_split.simps) (auto split: list.splits)

lemma py_split_len: "sep \<noteq> [] \<Longrightarrow> (2 \<le> length (py_split sep s)) = sublist sep s"
proof (induction s)
  case Nil
  then show ?case by (simp add: py_split_Nil)
next
  case (Cons c s)
  show ?case
  proof (cases "prefix sep (c # s)")
    case True
    then show ?thesis
      using Cons.prems py_split_ne [of sep "drop (length sep) (c # s)"]
      by (cases "py_split sep (drop (length sep) (c # s))")
         (auto simp add: py_split_prefix sublist_Cons_right)
  next
    case False
    then show ?thesis
      using Cons py_split_ne [of sep s]
      by (cases "py_split sep s") (auto simp add: py_split_Cons sublist_Cons_right)
  qed
qed

lemma tags_ne: "number_open \<noteq> []" "next_street_open \<noteq> []" "span_close \<noteq> []"
  by (simp_all add: number_open_def next_street_open_def span_close_def)

lemma list_index_0: "xs \<noteq> [] \<Longrightarrow> list_index xs 0 = Inr (hd xs)"
  by (cases xs) (simp_all add: list_index_def)

lemma span_text_str:
  "tag \<noteq> [] \<Longrightarrow> span_text (JStr s) tag =
     (if sublist tag s then Inr (hd (py_split span_close (py_split tag s ! 1)))
      else Inl IndexError)"
  using py_split_len [of tag s]
  by (auto simp add: span_text_def list_index_def hd_conv_nth py_split_ne)

lemma py_split_decompose:
  "sep \<noteq> [] \<Longrightarrow>
   py_split sep s =
     text_before sep s # (case text_after sep s of None \<Rightarrow> [] | Some rest \<Rightarrow> py_split sep rest)"
proof (induction s)
  case Nil
  then show ?case by (simp add: py_split_Nil)
next
  case (Cons c s)
  show ?case
  proof (cases "prefix sep (c # s)")
    case True
    then show ?thesis using Cons.prems by (simp add: py_split_prefix)
  next
    case False
    then show ?thesis using Cons by (simp add: py_split_Cons)
  qed
qed

lemma hd_py_split: "sep \<noteq> [] \<Longrightarrow> hd (py_split sep s) = text_before sep s"
  using py_split_decompose [of sep s] by simp

lemma text_after_None: "tag \<noteq> [] \<Longrightarrow> (text_after tag s = None) = (\<not> sublist tag s)"
  using py_split_len [of tag s] py_split_decompose [of tag s]
  by (cases "text_after tag s") (simp_all add: py_split_ne Suc_le_eq)

lemma span_text_extractable:
  "tag \<noteq> [] \<Longrightarrow>
   span_text (JStr s) tag =
     (case extractable tag s of None \<Rightarrow> Inl IndexError | Some t \<Rightarrow> Inr t)"
proof (cases "text_after tag s")
  case None
  assume "tag \<noteq> []"
  with None show ?thesis
    using text_after_None [of tag s] by (simp add: span_text_str extractable_def)
next
  case (Some rest)
  assume t: "tag \<noteq> []"
  with Some have occurs: "sublist tag s"
    using text_after_None [of tag s] by simp
  have "py_split tag s ! 1 = hd (py_split tag rest)"
    using py_split_decompose [OF t, of s] Some py_split_ne [of tag rest]
    by (simp add: hd_conv_nth)
  then show ?thesis
    using t occurs Some by (simp add: span_text_str extractable_def hd_py_split tags_ne)
qed

lemma py_join_Nil_sep: "py_join [] xs = concat xs"
  by (induction "[] :: string" xs rule: py_join.induct) simp_all

lemma concat_py_split_char: "concat (py_split [c] s) = filter (\<lambda>x. x \<noteq> c) s"
proof (induction s)
  case Nil
  show ?case by (simp add: py_split_Nil)
next
  case (Cons x s)
  show ?case
  proof (cases "x = c")
    case True
    then show ?thesis using Cons by (simp add: py_split_prefix)
  next
    case False
    have "concat (py_split [c] s) = hd (py_split [c] s) @ concat (tl (py_split [c] s))"
      using py_split_ne [of "[c]" s] by (cases "py_split [c] s") simp_all
    with False show ?thesis using Cons by (simp add: py_split_Cons)
  qed
qed

lemma strip_parens_remove_parens: "strip_parens s = remove_parens s"
  by (simp add: strip_parens_def remove_parens_def py_replace_def py_join_Nil_sep
      concat_py_split_char conj_commute)

lemma extractable_None: "tag \<noteq> [] \<Longrightarrow> (extractable tag s = None) = (\<not> sublist tag s)"
  using text_after_None [of tag s]
  by (cases "text_after tag s") (auto simp add: extractable_def)

lemma vehicle_step_entry:
  "has_instruction step s \<Longrightarrow>
   vehicle_step names step =
     Inr (case spec_vehicle_entry s of None \<Rightarrow> names | Some c \<Rightarrow> append_if_new names c)"
  by (simp add: has_instruction_def vehicle_step_def spec_vehicle_entry_def
      span_text_extractable tags_ne strip_parens_remove_parens split: option.splits)

lemma non_vehicle_step_entry:
  "has_instruction step s \<Longrightarrow>
   non_vehicle_step names step =
     Inr (case spec_non_vehicle_entry s of None \<Rightarrow> names | Some c \<Rightarrow> append_if_new names c)"
  by (simp add: has_instruction_def non_vehicle_step_def spec_non_vehicle_entry_def
      span_text_extractable tags_ne strip_parens_remove_parens split: option.splits)

lemma remdups_adj_snoc:
  "remdups_adj (ys @ [c]) = append_if_new (remdups_adj ys) c"
proof (cases ys rule: rev_cases)
  case Nil
  then show ?thesis by (simp add: append_if_new_def)
next
  case (snoc zs z)
  then show ?thesis
    by (simp add: append_if_new_def remdups_adj_append_two)
qed

lemma for_steps_append:
  "for_steps body acc (xs @ ys) =
     (case for_steps body acc xs of Inl e \<Rightarrow> Inl e | Inr acc' \<Rightarrow> for_steps body acc' ys)"
  by (induction xs arbitrary: acc) (auto split: sum.splits)

lemma map_filter_snoc:
  "List.map_filter f (xs @ [x]) =
     List.map_filter f xs @ (case f x of None \<Rightarrow> [] | Some y \<Rightarrow> [y])"
  by (simp add: List.map_filter_def split: option.splits)

lemma dedup_loop:
  assumes "list_all2 (\<lambda>step s. \<forall>names. body names step =
             Inr (case entry s of None \<Rightarrow> names | Some c \<Rightarrow> append_if_new names c))
           maneuver instructions"
  shows "for_steps body [] maneuver = Inr (remdups_adj (List.map_filter entry instructions))"
  using assms
proof (induction maneuver arbitrary: instructions rule: rev_induct)
  case Nil
  then show ?case by (simp add: List.map_filter_def)
next
  case (snoc step steps)
  from snoc.prems obtain ss s where split: "instructions = ss @ [s]"
    and rest: "list_all2 (\<lambda>step s. \<forall>names. body names step =
             Inr (case entry s of None \<Rightarrow> names | Some c \<Rightarrow> append_if_new names c)) steps ss"
    and this_step: "\<forall>names. body names step =
             Inr (case entry s of None \<Rightarrow> names | Some c \<Rightarrow> append_if_new names c)"
    by (auto simp add: list_all2_append1 list_all2_Cons1)
  show ?case
    using snoc.IH [OF rest] this_step
    by (simp add: split for_steps_append map_filter_snoc remdups_adj_snoc split: option.splits)
qed

lemma append_if_new_distinct_adj:
  "distinct_adj names \<Longrightarrow> distinct_adj (append_if_new names c)"
  by (auto simp add: append_if_new_def distinct_adj_append_iff)

lemma vehicle_step_distinct_adj:
  "distinct_adj names \<Longrightarrow> vehicle_step names step = Inr names' \<Longrightarrow> distinct_adj names'"
  by (auto simp add: vehicle_step_def append_if_new_distinct_adj split: sum.splits if_splits)

lemma non_vehicle_step_distinct_adj:
  "distinct_adj names \<Longrightarrow> non_vehicle_step names step = Inr names' \<Longrightarrow> distinct_adj names'"
  by (auto simp add: non_vehicle_step_def append_if_new_distinct_adj split: sum.splits if_splits)

lemma for_steps_invariant:
  assumes "\<And>acc step acc'. P acc \<Longrightarrow> body acc step = Inr acc' \<Longrightarrow> P acc'"
  shows "P acc \<Longrightarrow> for_steps body acc steps = Inr acc' \<Longrightarrow> P acc'"
proof (induction steps arbitrary: acc)
  case Nil
  then show ?case by simp
next
  case (Cons step steps)
  then show ?case using assms by (auto split: sum.splits)
qed

lemma for_steps_snoc:
  "for_steps body acc (xs @ [x]) =
     (case for_steps body acc xs of Inl e \<Rightarrow> Inl e | Inr acc' \<Rightarrow> body acc' x)"
  by (simp add: for_steps_append split: sum.splits)

lemma line_step_entry:
  "has_line line_info nd \<Longrightarrow> line_step lines line_info = Inr (lines @ [spec_line_entry nd])"
  by (simp add: has_line_def line_step_def spec_line_entry_def)

lemma line_loop:
  "list_all2 has_line segments lines \<Longrightarrow>
   for_steps line_step acc segments = Inr (acc @ map spec_line_entry lines)"
proof (induction segments arbitrary: acc lines)
  case Nil
  then show ?case by simp
next
  case (Cons seg segments)
  then obtain nd rest where "lines = nd # rest" "has_line seg nd"
    "list_all2 has_line segments rest"
    by (auto simp add: list_all2_Cons1)
  then show ?case
    using Cons.IH [of rest "acc @ [spec_line_entry nd]"] by (simp add: line_step_entry)
qed

lemma vehicle_step_no_number:
  "has_instruction step s \<Longrightarrow> \<not> sublist number_open s \<Longrightarrow> vehicle_step names step = Inr names"
  using vehicle_step_entry [of step s names] extractable_None [of number_open s]
  by (simp add: spec_vehicle_entry_def tags_ne)

lemma non_vehicle_step_no_street:
  "has_instruction step s \<Longrightarrow> \<not> sublist next_street_open s \<Longrightarrow>
   non_vehicle_step names step = Inr names"
  using non_vehicle_step_entry [of step s names] extractable_None [of next_street_open s]
  by (simp add: spec_non_vehicle_entry_def tags_ne)

lemma for_steps_skip:
  "(\<And>acc. body acc step = Inr acc) \<Longrightarrow>
   for_steps body acc (before @ step # after) = for_steps body acc (before @ after)"
  by (simp add: for_steps_append split: sum.splits)

lemma for_steps_all:
  assumes "\<And>acc step acc'. body acc step = Inr acc' \<Longrightarrow> \<exists>x. P step x"
  shows "for_steps body acc steps = Inr r \<Longrightarrow> \<exists>xs. list_all2 P steps xs"
proof (induction steps arbitrary: acc)
  case Nil
  then show ?case by simp
next
  case (Cons step steps)
  from Cons.prems obtain acc' where b: "body acc step = Inr acc'"
    and rest: "for_steps body acc' steps = Inr r"
    by (auto split: sum.splits)
  from assms [OF b] obtain x where "P step x" by blast
  moreover from Cons.IH [OF rest] obtain xs where "list_all2 P steps xs" by blast
  ultimately have "list_all2 P (step # steps) (x # xs)" by simp
  then show ?case by blast
qed

lemma span_text_Inr_string:
  "span_text instruction tag = Inr t \<Longrightarrow> \<exists>s. instruction = JStr s"
  by (cases instruction) (simp_all add: span_text_def)

lemma span_text_IndexError_string:
  "span_text instruction tag = Inl IndexError \<Longrightarrow> \<exists>s. instruction = JStr s"
  by (cases instruction) (simp_all add: span_text_def)

lemma vehicle_step_has_instruction:
  "vehicle_step names step = Inr names' \<Longrightarrow> \<exists>s. has_instruction step s"
  by (auto simp add: vehicle_step_def has_instruction_def
      split: sum.splits if_splits
      dest: span_text_Inr_string span_text_IndexError_string)

lemma line_step_has_line:
  "line_step lines line_info = Inr lines' \<Longrightarrow> \<exists>nd. has_line line_info nd"
proof -
  assume a: "line_step lines line_info = Inr lines'"
  then obtain name left dest line where
    n: "py_getitem line_info ''lineName'' = Inr name"
    and l: "str_add name (JStr '' - '') = Inr left"
    and d: "py_getitem line_info ''destination'' = Inr dest"
    and r: "str_add (JStr left) dest = Inr line"
    by (auto simp add: line_step_def split: sum.splits)
  from l obtain ns where "name = JStr ns" by (cases name) simp_all
  moreover from r obtain ds where "dest = JStr ds" by (cases dest) simp_all
  ultimately have "has_line line_info (ns, ds)"
    using n d by (simp add: has_line_def)
  then show ?thesis by blast
qed

section \<open>Properties of the requests\<close>

lemma unauthorized_error_obj:
  "unauthorized_error (JObj payload) =
     (if map_of payload ''error'' = Some (JStr ''Unauthorized'')
      then (case map_of payload ''error_description'' of
              None \<Rightarrow> Inl KeyError
            | Some d \<Rightarrow> Inr (Some (InvalidCredentialsError d)))
      else Inr None)"
  by (auto simp add: unauthorized_error_def sum_bind_def split: option.splits)

lemma subtype_error_obj:
  "subtype_error (JObj payload) =
     (case map_of payload ''subtype'' of
        None \<Rightarrow> Inr None
      | Some subtype \<Rightarrow>
          (case map_of payload ''details'' of
             None \<Rightarrow> Inl KeyError
           | Some details \<Rightarrow>
               Inr (case subtype of
                      JStr s \<Rightarrow> map_option (\<lambda>kind. kind details) (map_of subtype_table s)
                    | _ \<Rightarrow> None)))"
  by (auto simp add: subtype_error_def sum_bind_def subtype_table_def
      split: option.splits json.splits)

lemma geocodes_only_io_of: "geocodes_only (io_of r)"
  unfolding geocodes_only_def
proof
  fix w :: world
  have "snd (io_of r w) = (fst w @ map Geocode [], snd w)" "fst (io_of r w) \<noteq> Blocked"
    by (cases r; simp add: io_of_def)+
  then show "\<exists>names. snd (io_of r w) = (fst w @ map Geocode names, snd w)
      \<and> fst (io_of r w) \<noteq> Blocked"
    by blast
qed

lemma geocodes_only_bind:
  assumes m: "geocodes_only m" and f: "\<And>x. geocodes_only (f x)"
  shows "geocodes_only (io_bind m f)"
  unfolding geocodes_only_def
proof
  fix w :: world
  from m obtain ns where ns: "snd (m w) = (fst w @ map Geocode ns, snd w)"
    and nb: "fst (m w) \<noteq> Blocked"
    unfolding geocodes_only_def by blast
  show "\<exists>names. snd (io_bind m f w) = (fst w @ map Geocode names, snd w)
      \<and> fst (io_bind m f w) \<noteq> Blocked"
  proof (cases "fst (m w)")
    case (Returns x)
    then have mw: "m w = (Returns x, (fst w @ map Geocode ns, snd w))"
      using ns by (metis prod.collapse)
    from f [of x] obtain ns' where
      "snd (f x (fst w @ map Geocode ns, snd w)) =
         (fst (fst w @ map Geocode ns, snd w) @ map Geocode ns', snd (fst w @ map Geocode ns, snd w))"
      and "fst (f x (fst w @ map Geocode ns, snd w)) \<noteq> Blocked"
      unfolding geocodes_only_def by blast
    then have "snd (io_bind m f w) = (fst w @ map Geocode (ns @ ns'), snd w)"
      and "fst (io_bind m f w) \<noteq> Blocked"
      using mw by (simp_all add: io_bind_def)
    then show ?thesis by blast
  next
    case (Raises e)
    then have mw: "m w = (Raises e, (fst w @ map Geocode ns, snd w))"
      using ns by (metis prod.collapse)
    show ?thesis
      by (rule exI [of _ ns]) (simp add: io_bind_def mw)
  next
    case Blocked
    with nb show ?thesis by simp
  qed
qed

lemma geocodes_only_get_coordinates:
  "geocodes_only (get_coordinates_for_location_name env location_name)"
  unfolding geocodes_only_def
proof
  fix w :: world
  have "snd (get_coordinates_for_location_name env location_name w) =
          (fst w @ map Geocode [location_name], snd w)"
    and "fst (get_coordinates_for_location_name env location_name w) \<noteq> Blocked"
    by (simp_all add: get_coordinates_for_location_name_def split: sum.splits option.splits)
  then show "\<exists>names. snd (get_coordinates_for_location_name env location_name w) =
          (fst w @ map Geocode names, snd w)
      \<and> fst (get_coordinates_for_location_name env location_name w) \<noteq> Blocked"
    by blast
qed

lemma geocodes_only_resolve_waypoint: "geocodes_only (resolve_waypoint env waypoint)"
  by (cases waypoint)
     (simp_all add: resolve_waypoint_def geocodes_only_io_of geocodes_only_get_coordinates)

lemma geocodes_only_lat_long: "geocodes_only (lat_long env point)"
  unfolding lat_long_def
  by (rule geocodes_only_bind)
     (cases point; simp add: geocodes_only_io_of geocodes_only_get_coordinates)+

lemma geocodes_only_lat_long_list: "geocodes_only (lat_long_list env acc points)"
proof (induction points arbitrary: acc)
  case Nil
  show ?case by (simp add: geocodes_only_io_of)
next
  case (Cons point points)
  show ?case
    by (simp add: geocodes_only_bind geocodes_only_lat_long Cons.IH)
qed

lemma geocodes_only_async_request_body: "geocodes_only (async_request_body env a)"
  unfolding async_request_body_def
  by (intro geocodes_only_bind geocodes_only_io_of geocodes_only_lat_long_list)

lemma io_bind_never_returns:
  "(\<And>x w'. fst (f x w') \<noteq> Returns y) \<Longrightarrow> fst (io_bind m f w) \<noteq> Returns y"
  by (cases "m w" rule: prod.exhaust; cases "fst (m w)"; simp add: io_bind_def)

lemma geocodes_only_outcome:
  assumes "geocodes_only m" and "\<And>y. fst (m w) \<noteq> Returns y"
  shows "\<exists>e names. m w = (Raises e, (fst w @ map Geocode names, snd w))"
proof -
  from assms(1) obtain names where t: "snd (m w) = (fst w @ map Geocode names, snd w)"
    and nb: "fst (m w) \<noteq> Blocked"
    unfolding geocodes_only_def by blast
  from nb assms(2) obtain e where "fst (m w) = Raises e"
    by (cases "fst (m w)") auto
  with t have "m w = (Raises e, (fst w @ map Geocode names, snd w))"
    by (metis prod.collapse)
  then show ?thesis by blast
qed

lemma resolve_coordinate_pair:
  "coordinate_pair waypoint \<Longrightarrow> resolve_waypoint env waypoint = io_of (Inr waypoint)"
  by (cases waypoint rule: coordinate_pair.cases) (simp_all add: resolve_waypoint_def)

lemma list_to_waypoint_coordinate_pair:
  "coordinate_pair waypoint \<Longrightarrow> \<exists>s. list_to_waypoint env waypoint = Inr s"
  by (cases waypoint rule: coordinate_pair.cases)
     (simp_all add: list_to_waypoint_def sum_bind_def list_index_def)

lemma polls_Suc: "polls url (Suc n) = [HttpGet url, Sleep 5] @ polls url n"
  by (simp add: polls_def)

lemma poll_keeps_polling:
  "\<forall>p \<in> set pending. keeps_polling p \<Longrightarrow>
   poll url tr (map Inr pending @ replies) = poll url (tr @ polls url (length pending)) replies"
proof (induction pending arbitrary: tr)
  case Nil
  show ?case by (simp add: polls_def)
next
  case (Cons p pending)
  from Cons.prems have p: "keeps_polling p" and rest: "\<forall>p \<in> set pending. keeps_polling p"
    by simp_all
  from p obtain v where v: "is_correct_response p = Inr v" "\<not> truthy v"
    by (auto simp add: keeps_polling_def split: sum.splits)
  show ?case
    using Cons.IH [OF rest, of "tr @ [HttpGet url, Sleep 5]"] v
    by (simp add: polls_Suc)
qed

lemma running_keeps_polling: "running p \<Longrightarrow> keeps_polling p"
  by (auto simp add: running_def keeps_polling_def is_correct_response_def response_json_def
      sum_bind_def split: option.splits)

lemma is_correct_response_303:
  "status_code r = 303 \<Longrightarrow> content r = Some body \<Longrightarrow> is_correct_response r = Inr body"
  by (simp add: is_correct_response_def response_json_def sum_bind_def)

lemma is_correct_response_auth_raises:
  "status_code r = 401 \<or> status_code r = 403 \<Longrightarrow> \<exists>e. is_correct_response r = Inl e"
  by (auto simp add: is_correct_response_def sum_bind_def split: sum.splits)

lemma is_correct_response_auth_message:
  assumes "status_code r = 401 \<or> status_code r = 403"
    and "content r = Some body"
    and "py_getitem body ''error'' = Inr (JStr code)"
    and "py_getitem body ''error_description'' = Inr (JStr description)"
  shows "is_correct_response r =
           Inl (HEREError (JStr (''Error occured on __is_correct_response: '' @ code @
                  '', description: '' @ description)))"
  using assms by (auto simp add: is_correct_response_def response_json_def sum_bind_def)

lemma download_file_self: "download_file [self_object] = io_of (Inl TypeError)"
  by (simp add: download_file_def)

lemma geocodes_only_after_poll: "geocodes_only (after_poll env result)"
  unfolding after_poll_def download_file_self
  by (intro geocodes_only_bind geocodes_only_io_of)
     (simp add: geocodes_only_bind geocodes_only_io_of)

lemma after_poll_no_post:
  "length (filter is_post (fst (snd (io_except_raise (after_poll env result) e w)))) =
   length (filter is_post (fst w))"
proof -
  from geocodes_only_after_poll [of env result] obtain names where
    "snd (after_poll env result w) = (fst w @ map Geocode names, snd w)"
    unfolding geocodes_only_def by blast
  moreover have "snd (io_except_raise (after_poll env result) e w) = snd (after_poll env result w)"
    by (cases "after_poll env result w" rule: prod.exhaust;
        cases "fst (after_poll env result w)"; simp add: io_except_raise_def)
  moreover have "filter is_post (map Geocode names) = []"
    by (induction names) simp_all
  ultimately show ?thesis by simp
qed

lemma http_request_trace:
  "fst (snd (http_request ev w)) = fst w @ [ev]"
proof (cases w)
  case (Pair tr replies)
  then show ?thesis by (cases replies) simp_all
qed

lemma submit_matrix_posts_once:
  assumes "submit_matrix env a w = (Returns poll_url, w')"
  shows "length (filter is_post (fst w')) = length (filter is_post (fst w)) + 1"
proof -
  from geocodes_only_async_request_body [of env a] obtain names where
    t: "snd (async_request_body env a w) = (fst w @ map Geocode names, snd w)"
    unfolding geocodes_only_def by blast
  have g: "filter is_post (map Geocode names) = []"
    by (induction names) simp_all
  show ?thesis
  proof (cases "fst (async_request_body env a w)")
    case (Returns request_body)
    then have b: "async_request_body env a w =
        (Returns request_body, (fst w @ map Geocode names, snd w))"
      using t by (metis prod.collapse)
    show ?thesis
    proof (cases "build_url env (JStr URL_CALCULATE_MATRIX) [(''apiKey'', api_key env)]")
      case (Inl e)
      with b assms show ?thesis
        by (simp add: submit_matrix_def io_bind_def io_of_def)
    next
      case (Inr url)
      define w1 :: world where "w1 = (fst w @ map Geocode names, snd w)"
      obtain out w2 where h: "http_request (HttpPost url request_body) w1 = (out, w2)"
        by (cases "http_request (HttpPost url request_body) w1") blast
      have tr2: "fst w2 = fst w1 @ [HttpPost url request_body]"
        using http_request_trace [of "HttpPost url request_body" w1] h by simp
      show ?thesis
      proof (cases out)
        case (Returns response)
        have "w' = w2"
          using assms b Inr h Returns
          by (auto simp add: submit_matrix_def io_bind_def io_of_def w1_def
              split: if_splits sum.splits)
        then show ?thesis using tr2 g by (simp add: w1_def)
      next
        case (Raises e)
        with assms b Inr h show ?thesis
          by (simp add: submit_matrix_def io_bind_def io_of_def w1_def)
      next
        case Blocked
        with assms b Inr h show ?thesis
          by (simp add: submit_matrix_def io_bind_def io_of_def w1_def)
      qed
    qed
  next
    case (Raises e)
    then obtain w1 where "async_request_body env a w = (Raises e, w1)"
      by (cases "async_request_body env a w") simp
    with assms show ?thesis
      by (simp add: submit_matrix_def io_bind_def)
  next
    case Blocked
    then obtain w1 where "async_request_body env a w = (Blocked, w1)"
      by (cases "async_request_body env a w") simp
    with assms show ?thesis
      by (simp add: submit_matrix_def io_bind_def)
  qed
qed

lemma async_matrix_after_submit:
  "submit_matrix env a w = (Returns poll_url, (tr, replies)) \<Longrightarrow>
   async_matrix env a w =
     io_bind (\<lambda>w. poll poll_url (fst w) (snd w))
       (\<lambda>result. io_except_raise (after_poll env result) (generic_error (caller env)))
       (tr, replies)"
  by (simp add: async_matrix_def io_bind_def)

text \<open>
  Claim C1, as amended. In the poll loop of \<^verbatim>\<open>async_matrix\<close> a status-200 reply of a
  job in progress is "not yet done": the loop sleeps five seconds and polls again. A
  status-303 reply with a non-empty body ends the loop, and its response is what the
  \<^verbatim>\<open>try\<close> block after the loop reads. So after an accepted submission and \<open>n\<close>
  replies in progress followed by a 303 reply, exactly \<open>n + 1\<close> polls are made, the
  rest of the script is not read, and the whole call has posted the job exactly once.
  (The counterexample after the witness: with the replies 303, 303, 200-completed the loop
  ends at the first 303, after one poll.)
\<close>

theorem poll_continues_on_200_and_ends_on_303:
  assumes sub: "submit_matrix env a w =
                  (Returns poll_url, (tr, map Inr pending @ Inr final # rest))"
    and run: "\<forall>p \<in> set pending. running p"
    and f1: "status_code final = 303"
    and f2: "content final = Some body"
    and f3: "truthy body"
  shows "poll poll_url tr (map Inr pending @ Inr final # rest) =
           (Returns final, (tr @ polls poll_url (length pending) @ [HttpGet poll_url], rest))
       \<and> async_matrix env a w =
           io_except_raise (after_poll env final) (generic_error (caller env))
             (tr @ polls poll_url (length pending) @ [HttpGet poll_url], rest)
       \<and> length (filter is_post (fst (snd (async_matrix env a w)))) =
           length (filter is_post (fst w)) + 1"
proof -
  from run have k: "\<forall>p \<in> set pending. keeps_polling p"
    by (simp add: running_keeps_polling)
  have p: "poll poll_url tr (map Inr pending @ Inr final # rest) =
           (Returns final, (tr @ polls poll_url (length pending) @ [HttpGet poll_url], rest))"
    using poll_keeps_polling [OF k, of poll_url tr "Inr final # rest"]
      is_correct_response_303 [OF f1 f2] f3
    by simp
  have a: "async_matrix env a w =
           io_except_raise (after_poll env final) (generic_error (caller env))
             (tr @ polls poll_url (length pending) @ [HttpGet poll_url], rest)"
    using async_matrix_after_submit [OF sub] p by (simp add: io_bind_def)
  have "filter is_post (polls poll_url n) = []" for n
    by (induction n) (simp_all add: polls_def)
  then have "length (filter is_post (fst (snd (async_matrix env a w)))) =
      length (filter is_post tr)"
    unfolding a by (simp add: after_poll_no_post)
  with submit_matrix_posts_once [OF sub] p a show ?thesis by simp
qed

theorem poll_continues_on_200_and_ends_on_303_witness:
  "submit_matrix example_env example_matrix_args
     ([], [Inr example_accepted, Inr example_running, Inr example_running, Inr example_done])
     = (Returns ''https://s/m1?apiKey=KEY'',
        ([example_post], map Inr [example_running, example_running] @ Inr example_done # []))
   \<and> list_all running [example_running, example_running]
   \<and> status_code example_done = 303
   \<and> content example_done = Some example_done_body
   \<and> truthy example_done_body
   \<and> poll ''https://s/m1?apiKey=KEY'' [example_post]
        (map Inr [example_running, example_running] @ Inr example_done # [])
     = (Returns example_done,
        ([example_post,
          HttpGet ''https://s/m1?apiKey=KEY'', Sleep 5,
          HttpGet ''https://s/m1?apiKey=KEY'', Sleep 5,
          HttpGet ''https://s/m1?apiKey=KEY''], []))
   \<and> length (filter is_post (fst (snd (async_matrix example_env example_matrix_args
        ([], [Inr example_accepted, Inr example_running, Inr example_running,
              Inr example_done]))))) = 1"
proof -
  have sub: "submit_matrix example_env example_matrix_args
     ([], [Inr example_accepted, Inr example_running, Inr example_running, Inr example_done])
     = (Returns ''https://s/m1?apiKey=KEY'',
        ([example_post], map Inr [example_running, example_running] @ Inr example_done # []))"
    by code_simp
  have r: "running example_running"
    by (simp add: running_def example_running_def print_matrix_status_def sum_bind_def)
  then have run: "\<forall>p \<in> set [example_running, example_running]. running p"
    by simp
  have f1: "status_code example_done = 303"
    and f2: "content example_done = Some example_done_body"
    and f3: "truthy example_done_body"
    by (simp_all add: example_done_def example_done_body_def)
  note t = poll_continues_on_200_and_ends_on_303 [OF sub run f1 f2 f3]
  show ?thesis
    using sub r f1 f2 f3 t [THEN conjunct1] t [THEN conjunct2, THEN conjunct2]
    by (simp add: polls_def)
qed

theorem poll_stops_at_first_303_counterexample:
  "async_matrix example_env example_matrix_args
     ([], [Inr example_accepted,
           Inr \<lparr>status_code = 303, content = Some (JObj [(''matrixId'', JStr ''m1''),
              (''status'', JStr ''inProgress'')])\<rparr>,
           Inr \<lparr>status_code = 303, content = Some (JObj [(''matrixId'', JStr ''m1''),
              (''status'', JStr ''inProgress'')])\<rparr>,
           Inr \<lparr>status_code = 200, content = Some example_done_body\<rparr>])
   = (Raises (HEREError (JStr ''Error occured on main'')),
      ([example_post, HttpGet ''https://s/m1?apiKey=KEY''],
       [Inr \<lparr>status_code = 303, content = Some (JObj [(''matrixId'', JStr ''m1''),
              (''status'', JStr ''inProgress'')])\<rparr>,
        Inr \<lparr>status_code = 200, content = Some example_done_body\<rparr>]))"
  by code_simp

text \<open>
  Claim C2, as amended. For a payload that is a JSON object and holds the fields the
  classifier reads (\<^verbatim>\<open>error_description\<close> when \<^verbatim>\<open>error\<close> is
  \<^verbatim>\<open>"Unauthorized"\<close>, \<^verbatim>\<open>details\<close> when there is a \<^verbatim>\<open>subtype\<close>), the classifier
  returns the kind that \<open>spec_classify\<close> gives: InvalidCredentials with the description
  first, else the kind that the table has for \<^verbatim>\<open>subtype\<close>, with the details, else the
  generic error \<open>''Error occured on ''\<close> followed by the caller's name. For an object
  that lacks such a field the classifier raises KeyError.
\<close>

theorem classifier_precedence:
  "error_from_routing_service_error caller_name (JObj payload) =
     (if complete_payload payload then Inr (spec_classify caller_name payload)
      else Inl KeyError)"
  unfolding error_from_routing_service_error_def unauthorized_error_obj subtype_error_obj
  by (auto simp add: sum_bind_def complete_payload_def spec_classify_def field_def
      split: option.splits json.splits)

theorem classifier_precedence_witness:
  "complete_payload [(''error'', JStr ''Unauthorized''), (''error_description'', JStr ''bad key'')]
   \<and> error_from_routing_service_error ''__get''
        (JObj [(''error'', JStr ''Unauthorized''), (''error_description'', JStr ''bad key'')])
      = Inr (InvalidCredentialsError (JStr ''bad key''))
   \<and> complete_payload [(''subtype'', JStr ''NoRouteFound''), (''details'', JStr ''no route'')]
   \<and> error_from_routing_service_error ''__get''
        (JObj [(''subtype'', JStr ''NoRouteFound''), (''details'', JStr ''no route'')])
      = Inr (NoRouteFoundError (JStr ''no route''))
   \<and> complete_payload [(''type'', JStr ''ApplicationError'')]
   \<and> error_from_routing_service_error ''__get'' (JObj [(''type'', JStr ''ApplicationError'')])
      = Inr (HEREError (JStr ''Error occured on __get''))"
  using classifier_precedence [of "''__get''"
      "[(''error'', JStr ''Unauthorized''), (''error_description'', JStr ''bad key'')]"]
    classifier_precedence [of "''__get''"
      "[(''subtype'', JStr ''NoRouteFound''), (''details'', JStr ''no route'')]"]
    classifier_precedence [of "''__get''" "[(''type'', JStr ''ApplicationError'')]"]
  by (simp add: complete_payload_def spec_classify_def field_def subtype_table_def
      generic_error_def)

theorem classifier_missing_details_counterexample:
  "error_from_routing_service_error ''__get'' (JObj [(''subtype'', JStr ''Unknown'')])
     = Inl KeyError
   \<and> error_from_routing_service_error ''__get'' (JObj [(''error'', JStr ''Unauthorized'')])
     = Inl KeyError"
  by (simp add: error_from_routing_service_error_def unauthorized_error_def subtype_error_def
      sum_bind_def)

text \<open>
  Claim C3. The list of entries that the vehicle and the non-vehicle summarizer join with
  \<open>''; ''\<close> never holds two equal entries next to each other. A candidate entry is
  compared with the last emitted entry only: appended to a maneuver, a step with entry
  \<open>c\<close> adds \<open>c\<close> unless \<open>c\<close> is the last entry so far, whether or not \<open>c\<close> occurs
  earlier in the list.
\<close>

theorem summary_no_consecutive_duplicates:
  "(vehicle_road_names maneuver = Inr names \<longrightarrow>
      distinct_adj names \<and>
      get_route_from_vehicle_maneuver maneuver = Inr (py_join ''; '' names) \<and>
      (has_instruction step s \<and> spec_vehicle_entry s = Some c \<longrightarrow>
         vehicle_road_names (maneuver @ [step]) =
           Inr (if names = [] \<or> last names \<noteq> c then names @ [c] else names)))
   \<and>
   (non_vehicle_road_names maneuver = Inr names \<longrightarrow>
      distinct_adj names \<and>
      get_route_from_non_vehicle_maneuver maneuver = Inr (py_join ''; '' names) \<and>
      (has_instruction step s \<and> spec_non_vehicle_entry s = Some c \<longrightarrow>
         non_vehicle_road_names (maneuver @ [step]) =
           Inr (if names = [] \<or> last names \<noteq> c then names @ [c] else names)))"
proof (intro conjI impI)
  assume v: "vehicle_road_names maneuver = Inr names"
  show "distinct_adj names"
  proof (rule for_steps_invariant [where P = distinct_adj and body = vehicle_step
          and acc = "[]" and steps = maneuver])
    show "distinct_adj ([] :: string list)" by simp
    show "for_steps vehicle_step [] maneuver = Inr names"
      using v by (simp add: vehicle_road_names_def)
  qed (rule vehicle_step_distinct_adj)
  show "get_route_from_vehicle_maneuver maneuver = Inr (py_join ''; '' names)"
    using v by (simp add: get_route_from_vehicle_maneuver_def)
  assume "has_instruction step s \<and> spec_vehicle_entry s = Some c"
  then have "vehicle_step names step = Inr (append_if_new names c)"
    using vehicle_step_entry [of step s names] by simp
  then show "vehicle_road_names (maneuver @ [step]) =
           Inr (if names = [] \<or> last names \<noteq> c then names @ [c] else names)"
    using v by (simp add: vehicle_road_names_def for_steps_snoc append_if_new_def)
next
  assume n: "non_vehicle_road_names maneuver = Inr names"
  show "distinct_adj names"
  proof (rule for_steps_invariant [where P = distinct_adj and body = non_vehicle_step
          and acc = "[]" and steps = maneuver])
    show "distinct_adj ([] :: string list)" by simp
    show "for_steps non_vehicle_step [] maneuver = Inr names"
      using n by (simp add: non_vehicle_road_names_def)
  qed (rule non_vehicle_step_distinct_adj)
  show "get_route_from_non_vehicle_maneuver maneuver = Inr (py_join ''; '' names)"
    using n by (simp add: get_route_from_non_vehicle_maneuver_def)
  assume "has_instruction step s \<and> spec_non_vehicle_entry s = Some c"
  then have "non_vehicle_step names step = Inr (append_if_new names c)"
    using non_vehicle_step_entry [of step s names] by simp
  then show "non_vehicle_road_names (maneuver @ [step]) =
           Inr (if names = [] \<or> last names \<noteq> c then names @ [c] else names)"
    using n by (simp add: non_vehicle_road_names_def for_steps_snoc append_if_new_def)
qed

theorem summary_no_consecutive_duplicates_witness:
  \<open>vehicle_road_names
      [JObj [(''instruction'', JStr ''<span class="number">A1</span>'')],
       JObj [(''instruction'', JStr ''<span class="number">A1</span>'')],
       JObj [(''instruction'', JStr ''<span class="number">B2</span>'')]]
     = Inr [''A1'', ''B2'']
   \<and> has_instruction (JObj [(''instruction'', JStr ''<span class="number">A1</span>'')])
         ''<span class="number">A1</span>''
   \<and> spec_vehicle_entry ''<span class="number">A1</span>'' = Some ''A1''
   \<and> distinct_adj [''A1'', ''B2'']
   \<and> get_route_from_vehicle_maneuver
      [JObj [(''instruction'', JStr ''<span class="number">A1</span>'')],
       JObj [(''instruction'', JStr ''<span class="number">A1</span>'')],
       JObj [(''instruction'', JStr ''<span class="number">B2</span>'')]]
     = Inr ''A1; B2''
   \<and> vehicle_road_names
      ([JObj [(''instruction'', JStr ''<span class="number">A1</span>'')],
        JObj [(''instruction'', JStr ''<span class="number">A1</span>'')],
        JObj [(''instruction'', JStr ''<span class="number">B2</span>'')]]
       @ [JObj [(''instruction'', JStr ''<span class="number">A1</span>'')]])
     = Inr [''A1'', ''B2'', ''A1'']
   \<and> non_vehicle_road_names
      [JObj [(''instruction'', JStr ''<span class="next-street">Elm</span>'')],
       JObj [(''instruction'', JStr ''<span class="next-street">Elm</span>'')],
       JObj [(''instruction'', JStr ''<span class="next-street">Oak</span>'')]]
     = Inr [''Elm'', ''Oak'']
   \<and> has_instruction (JObj [(''instruction'', JStr ''<span class="next-street">Elm</span>'')])
         ''<span class="next-street">Elm</span>''
   \<and> spec_non_vehicle_entry ''<span class="next-street">Elm</span>'' = Some ''Elm''
   \<and> get_route_from_non_vehicle_maneuver
      [JObj [(''instruction'', JStr ''<span class="next-street">Elm</span>'')],
       JObj [(''instruction'', JStr ''<span class="next-street">Elm</span>'')],
       JObj [(''instruction'', JStr ''<span class="next-street">Oak</span>'')]]
     = Inr ''Elm; Oak''
   \<and> non_vehicle_road_names
      ([JObj [(''instruction'', JStr ''<span class="next-street">Elm</span>'')],
        JObj [(''instruction'', JStr ''<span class="next-street">Elm</span>'')],
        JObj [(''instruction'', JStr ''<span class="next-street">Oak</span>'')]]
       @ [JObj [(''instruction'', JStr ''<span class="next-street">Elm</span>'')]])
     = Inr [''Elm'', ''Oak'', ''Elm'']\<close>
proof -
  have v1: \<open>vehicle_road_names
      [JObj [(''instruction'', JStr ''<span class="number">A1</span>'')],
       JObj [(''instruction'', JStr ''<span class="number">A1</span>'')],
       JObj [(''instruction'', JStr ''<span class="number">B2</span>'')]]
     = Inr [''A1'', ''B2'']\<close>
    by code_simp
  have v2: \<open>has_instruction (JObj [(''instruction'', JStr ''<span class="number">A1</span>'')])
         ''<span class="number">A1</span>''\<close>
    by (simp add: has_instruction_def)
  have v3: \<open>spec_vehicle_entry ''<span class="number">A1</span>'' = Some ''A1''\<close>
    by code_simp
  have n1: \<open>non_vehicle_road_names
      [JObj [(''instruction'', JStr ''<span class="next-street">Elm</span>'')],
       JObj [(''instruction'', JStr ''<span class="next-street">Elm</span>'')],
       JObj [(''instruction'', JStr ''<span class="next-street">Oak</span>'')]]
     = Inr [''Elm'', ''Oak'']\<close>
    by code_simp
  have n2: \<open>has_instruction
         (JObj [(''instruction'', JStr ''<span class="next-street">Elm</span>'')])
         ''<span class="next-street">Elm</span>''\<close>
    by (simp add: has_instruction_def)
  have n3: \<open>spec_non_vehicle_entry ''<span class="next-street">Elm</span>'' = Some ''Elm''\<close>
    by code_simp
  note v = summary_no_consecutive_duplicates
    [where step = \<open>JObj [(''instruction'', JStr ''<span class="number">A1</span>'')]\<close>
       and s = \<open>''<span class="number">A1</span>''\<close> and c = \<open>''A1''\<close>,
     THEN conjunct1, THEN mp, OF v1]
  note n = summary_no_consecutive_duplicates
    [where step = \<open>JObj [(''instruction'', JStr ''<span class="next-street">Elm</span>'')]\<close>
       and s = \<open>''<span class="next-street">Elm</span>''\<close> and c = \<open>''Elm''\<close>,
     THEN conjunct2, THEN mp, OF n1]
  show ?thesis
    using v1 v2 v3 n1 n2 n3 v n by simp
qed

text \<open>
  Claim C4, as amended. The vehicle summarizer returns a summary exactly for a maneuver
  whose steps all carry an instruction string, and the summary is the \<open>''; ''\<close>-joined
  list of the per-step entries with consecutive duplicates dropped. A step's entry is
  \<open>number @ '' - '' @ street\<close> when both spans are extractable, \<open>number\<close> alone when
  only the number span is, and absent when no number span is, where \<open>number\<close> and
  \<open>street\<close> are the span texts with every parenthesis removed. (The counterexample after
  the witness: the number span \<open>''(A1)''\<close> gives the entry \<open>''A1''\<close>, and the spans
  \<open>''(A1)''\<close> and \<open>''A(1)''\<close> of two consecutive steps give one entry.)
\<close>

theorem vehicle_summary_entries:
  "(list_all2 has_instruction maneuver instructions \<longrightarrow>
      get_route_from_vehicle_maneuver maneuver =
        Inr (spec_summary spec_vehicle_entry instructions))
   \<and> (get_route_from_vehicle_maneuver maneuver = Inr r \<longrightarrow>
        (\<exists>instructions. list_all2 has_instruction maneuver instructions \<and>
           r = spec_summary spec_vehicle_entry instructions))"
proof -
  have forward: "get_route_from_vehicle_maneuver maneuver =
        Inr (spec_summary spec_vehicle_entry instructions)"
    if h: "list_all2 has_instruction maneuver instructions" for instructions
  proof -
    have "list_all2 (\<lambda>step s. \<forall>names. vehicle_step names step =
            Inr (case spec_vehicle_entry s of None \<Rightarrow> names | Some c \<Rightarrow> append_if_new names c))
          maneuver instructions"
      using h by (rule list_all2_mono) (simp add: vehicle_step_entry)
    then have "vehicle_road_names maneuver =
        Inr (remdups_adj (List.map_filter spec_vehicle_entry instructions))"
      unfolding vehicle_road_names_def by (rule dedup_loop)
    then show ?thesis
      by (simp add: get_route_from_vehicle_maneuver_def spec_summary_def)
  qed
  have backward: "\<exists>instructions. list_all2 has_instruction maneuver instructions \<and>
           r = spec_summary spec_vehicle_entry instructions"
    if ret: "get_route_from_vehicle_maneuver maneuver = Inr r"
  proof -
    from ret obtain names where "for_steps vehicle_step [] maneuver = Inr names"
      by (auto simp add: get_route_from_vehicle_maneuver_def vehicle_road_names_def
          split: sum.splits)
    then obtain instructions where i: "list_all2 has_instruction maneuver instructions"
      using for_steps_all [where body = vehicle_step and P = has_instruction]
        vehicle_step_has_instruction by blast
    with forward [OF i] ret show ?thesis by auto
  qed
  from forward backward show ?thesis by blast
qed

theorem vehicle_summary_entries_witness:
  \<open>list_all2 has_instruction
     [JObj [(''instruction'', JStr ''Take <span class="number">(A1)</span> toward <span class="next-street">Main St</span>'')],
      JObj [(''instruction'', JStr ''Keep on <span class="number">B2</span>'')],
      JObj [(''instruction'', JStr ''Arrive at your destination'')]]
     [''Take <span class="number">(A1)</span> toward <span class="next-street">Main St</span>'',
      ''Keep on <span class="number">B2</span>'',
      ''Arrive at your destination'']
   \<and> get_route_from_vehicle_maneuver
     [JObj [(''instruction'', JStr ''Take <span class="number">(A1)</span> toward <span class="next-street">Main St</span>'')],
      JObj [(''instruction'', JStr ''Keep on <span class="number">B2</span>'')],
      JObj [(''instruction'', JStr ''Arrive at your destination'')]]
     = Inr ''A1 - Main St; B2''
   \<and> (\<exists>instructions.
         list_all2 has_instruction
           [JObj [(''instruction'', JStr ''Take <span class="number">(A1)</span> toward <span class="next-street">Main St</span>'')],
            JObj [(''instruction'', JStr ''Keep on <span class="number">B2</span>'')],
            JObj [(''instruction'', JStr ''Arrive at your destination'')]]
           instructions
         \<and> ''A1 - Main St; B2'' = spec_summary spec_vehicle_entry instructions)\<close>
proof -
  have h: \<open>list_all2 has_instruction
     [JObj [(''instruction'', JStr ''Take <span class="number">(A1)</span> toward <span class="next-street">Main St</span>'')],
      JObj [(''instruction'', JStr ''Keep on <span class="number">B2</span>'')],
      JObj [(''instruction'', JStr ''Arrive at your destination'')]]
     [''Take <span class="number">(A1)</span> toward <span class="next-street">Main St</span>'',
      ''Keep on <span class="number">B2</span>'',
      ''Arrive at your destination'']\<close>
    by (simp add: has_instruction_def)
  have v: \<open>spec_summary spec_vehicle_entry
     [''Take <span class="number">(A1)</span> toward <span class="next-street">Main St</span>'',
      ''Keep on <span class="number">B2</span>'',
      ''Arrive at your destination''] = ''A1 - Main St; B2''\<close>
    by code_simp
  have r: \<open>get_route_from_vehicle_maneuver
     [JObj [(''instruction'', JStr ''Take <span class="number">(A1)</span> toward <span class="next-street">Main St</span>'')],
      JObj [(''instruction'', JStr ''Keep on <span class="number">B2</span>'')],
      JObj [(''instruction'', JStr ''Arrive at your destination'')]]
     = Inr ''A1 - Main St; B2''\<close>
    using vehicle_summary_entries [THEN conjunct1, THEN mp, OF h] v by simp
  from vehicle_summary_entries [THEN conjunct2, THEN mp, OF r] h r
  show ?thesis by blast
qed

theorem vehicle_parentheses_removed_counterexample:
  \<open>extractable number_open ''Take <span class="number">(A1)</span>'' = Some ''(A1)''
   \<and> spec_summary claimed_vehicle_entry [''Take <span class="number">(A1)</span>''] = ''(A1)''
   \<and> get_route_from_vehicle_maneuver
        [JObj [(''instruction'', JStr ''Take <span class="number">(A1)</span>'')]]
      = Inr ''A1''
   \<and> spec_summary claimed_vehicle_entry
        [''Take <span class="number">(A1)</span>'', ''Keep on <span class="number">A(1)</span>'']
      = ''(A1); A(1)''
   \<and> get_route_from_vehicle_maneuver
        [JObj [(''instruction'', JStr ''Take <span class="number">(A1)</span>'')],
         JObj [(''instruction'', JStr ''Keep on <span class="number">A(1)</span>'')]]
      = Inr ''A1''\<close>
  by code_simp

text \<open>
  Claim C5, as amended. A route request with both a departure and an arrival never
  reaches the route endpoint: \<^verbatim>\<open>_route\<close> raises, no reply of the script is read, and
  the only events it adds are the geocoder calls for waypoints given as place names. When
  both waypoints are coordinate lists and the modes are a list, nothing at all goes over
  the network and the error is the \<^verbatim>\<open>HEREError\<close> "Specify either departure or arrival,
  not both.".
\<close>

theorem route_rejects_departure_and_arrival:
  assumes dep: "is_not_None departure_arg" and arr: "is_not_None arrival_arg"
  shows "(\<exists>e names. route env waypoint_a waypoint_b modes departure_arg arrival_arg w =
            (Raises e, (fst w @ map Geocode names, snd w)))
       \<and> (coordinate_pair waypoint_a \<and> coordinate_pair waypoint_b \<and> modes \<noteq> None \<longrightarrow>
            route env waypoint_a waypoint_b modes departure_arg arrival_arg w =
              (Raises (HEREError (JStr ''Specify either departure or arrival, not both.'')), w))"
proof
  let ?reject = "io_of (Inl (HEREError (JStr ''Specify either departure or arrival, not both.'')))
                   :: (json \<times> string option) io"
  have eq: "route env waypoint_a waypoint_b modes departure_arg arrival_arg =
     io_bind (resolve_waypoint env waypoint_a) (\<lambda>a.
     io_bind (resolve_waypoint env waypoint_b) (\<lambda>b.
     io_bind (io_of (list_to_waypoint env a)) (\<lambda>waypoint0.
     io_bind (io_of (list_to_waypoint env b)) (\<lambda>waypoint1.
     io_bind (io_of (prepare_mode_values env modes)) (\<lambda>mode_values. ?reject)))))"
    using dep arr by (simp add: route_def)
  have g: "geocodes_only (route env waypoint_a waypoint_b modes departure_arg arrival_arg)"
    unfolding eq
    by (intro geocodes_only_bind geocodes_only_io_of geocodes_only_resolve_waypoint)
  have n: "fst (route env waypoint_a waypoint_b modes departure_arg arrival_arg w) \<noteq> Returns y"
    for y
    unfolding eq
    by (intro io_bind_never_returns) (simp add: io_of_def)
  show "\<exists>e names. route env waypoint_a waypoint_b modes departure_arg arrival_arg w =
            (Raises e, (fst w @ map Geocode names, snd w))"
    using geocodes_only_outcome [OF g n] .
  show "coordinate_pair waypoint_a \<and> coordinate_pair waypoint_b \<and> modes \<noteq> None \<longrightarrow>
            route env waypoint_a waypoint_b modes departure_arg arrival_arg w =
              (Raises (HEREError (JStr ''Specify either departure or arrival, not both.'')), w)"
  proof
    assume h: "coordinate_pair waypoint_a \<and> coordinate_pair waypoint_b \<and> modes \<noteq> None"
    then obtain s0 s1 ms where "list_to_waypoint env waypoint_a = Inr s0"
      "list_to_waypoint env waypoint_b = Inr s1" "modes = Some ms"
      using list_to_waypoint_coordinate_pair [of waypoint_a env]
        list_to_waypoint_coordinate_pair [of waypoint_b env] by auto
    then show "route env waypoint_a waypoint_b modes departure_arg arrival_arg w =
              (Raises (HEREError (JStr ''Specify either departure or arrival, not both.'')), w)"
      using h unfolding eq
      by (simp add: resolve_coordinate_pair io_bind_def io_of_def prepare_mode_values_def)
  qed
qed

theorem route_rejects_departure_and_arrival_witness:
  "is_not_None (PyValue (JStr ''2020-01-01T10:00:00''))
   \<and> is_not_None (PyDatetime ''2020-01-01T12:00:00'')
   \<and> coordinate_pair (JArr [JNum 52, JNum 13])
   \<and> coordinate_pair (JArr [JNum 48, JNum 11])
   \<and> route example_env (JArr [JNum 52, JNum 13]) (JArr [JNum 48, JNum 11]) (Some [car, fastest])
        (PyValue (JStr ''2020-01-01T10:00:00'')) (PyDatetime ''2020-01-01T12:00:00'')
        ([], [Inr \<lparr>status_code = 200, content = None\<rparr>])
      = (Raises (HEREError (JStr ''Specify either departure or arrival, not both.'')),
         ([], [Inr \<lparr>status_code = 200, content = None\<rparr>]))"
proof -
  have d: "is_not_None (PyValue (JStr ''2020-01-01T10:00:00''))"
    and a: "is_not_None (PyDatetime ''2020-01-01T12:00:00'')"
    by (simp_all add: is_not_None_def)
  show ?thesis
    using d a
      route_rejects_departure_and_arrival [OF d a, of example_env "JArr [JNum 52, JNum 13]"
        "JArr [JNum 48, JNum 11]" "Some [car, fastest]"
        "([], [Inr \<lparr>status_code = 200, content = None\<rparr>])"]
    by simp
qed

theorem route_geocodes_before_rejecting_counterexample:
  "route example_env (JStr ''Berlin'') (JArr [JNum 48, JNum 11]) (Some [car, fastest])
     (PyValue (JStr ''2020-01-01T10:00:00'')) (PyValue (JStr ''2020-01-01T12:00:00''))
     ([], [])
   = (Raises (HEREError (JStr ''Specify either departure or arrival, not both.'')),
      ([Geocode ''Berlin''], []))
   \<and> is_network (Geocode ''Berlin'')
   \<and> route example_env (JStr ''Atlantis'') (JArr [JNum 48, JNum 11]) (Some [car, fastest])
     (PyValue (JStr ''2020-01-01T10:00:00'')) (PyValue (JStr ''2020-01-01T12:00:00''))
     ([], [])
   = (Raises (WaypointNotFoundError (JStr ''Error occured on free_form'')),
      ([Geocode ''Atlantis''], []))"
  by code_simp

text \<open>
  Claim C6 fails on the code. \<^verbatim>\<open>sync_matrix\<close> runs the loop over the destinations and
  then stores the list of the origins under \<^verbatim>\<open>destinations\<close>: for the origin (52, 13)
  and the destination (48, 11) the posted body has (52, 13) in both arrays. The second
  equation is the body that \<^verbatim>\<open>async_matrix\<close> builds from the same arguments, with the
  destination in place.
\<close>

theorem sync_matrix_posts_origins_as_destinations:
  "sync_matrix example_env example_matrix_args
     ([], [Inr \<lparr>status_code = 200, content = Some (JObj [(''matrix'', JObj [])])\<rparr>])
   = (Returns (JObj [(''matrix'', JObj [])]),
      ([HttpPost ''https://matrix.router.hereapi.com/v8/matrix?apiKey=KEY&async=false''
         (JObj
           [(''regionDefinition'',
             JObj [(''type'', JStr ''circle''),
                   (''center'', JObj [(''lat'', JNum 50), (''lng'', JNum 12)]),
                   (''radius'', JNum 1000)]),
            (''origins'', JArr [JObj [(''lat'', JNum 52), (''lng'', JNum 13)]]),
            (''destinations'', JArr [JObj [(''lat'', JNum 52), (''lng'', JNum 13)]])])],
       []))
   \<and> async_request_body example_env example_matrix_args ([], [])
   = (Returns
        (JObj
           [(''regionDefinition'',
             JObj [(''type'', JStr ''circle''),
                   (''center'', JObj [(''lat'', JNum 50), (''lng'', JNum 12)]),
                   (''radius'', JNum 1000)]),
            (''origins'', JArr [JObj [(''lat'', JNum 52), (''lng'', JNum 13)]]),
            (''destinations'', JArr [JObj [(''lat'', JNum 48), (''lng'', JNum 11)]])]),
      ([], []))"
  by code_simp

text \<open>
  Claim C7. A poll reply with status 401 or 403 ends the polling at once, on the first
  poll as on a later one: \<^verbatim>\<open>async_matrix\<close> raises, the trace ends with the poll that
  received the reply and the rest of the script is not read. When the body carries the
  strings \<^verbatim>\<open>error\<close> and \<^verbatim>\<open>error_description\<close>, the exception is the
  \<^verbatim>\<open>HEREError\<close> whose message holds both.
\<close>

theorem auth_failure_ends_polling:
  assumes sub: "submit_matrix env a w = (Returns poll_url, (tr, map Inr pending @ Inr r # rest))"
    and run: "\<forall>p \<in> set pending. keeps_polling p"
    and auth: "status_code r = 401 \<or> status_code r = 403"
  shows "(\<exists>e. async_matrix env a w =
            (Raises e, (tr @ polls poll_url (length pending) @ [HttpGet poll_url], rest)))
       \<and> (content r = Some body \<and> py_getitem body ''error'' = Inr (JStr code) \<and>
          py_getitem body ''error_description'' = Inr (JStr description) \<longrightarrow>
            async_matrix env a w =
              (Raises (HEREError (JStr (''Error occured on __is_correct_response: '' @ code @
                         '', description: '' @ description))),
               (tr @ polls poll_url (length pending) @ [HttpGet poll_url], rest)))"
proof -
  have raised: "async_matrix env a w =
      (Raises e, (tr @ polls poll_url (length pending) @ [HttpGet poll_url], rest))"
    if "is_correct_response r = Inl e" for e
    using async_matrix_after_submit [OF sub]
      poll_keeps_polling [OF run, of poll_url tr "Inr r # rest"] that
    by (simp add: io_bind_def)
  from is_correct_response_auth_raises [OF auth] raised
  have "\<exists>e. async_matrix env a w =
            (Raises e, (tr @ polls poll_url (length pending) @ [HttpGet poll_url], rest))"
    by blast
  moreover have "async_matrix env a w =
              (Raises (HEREError (JStr (''Error occured on __is_correct_response: '' @ code @
                         '', description: '' @ description))),
               (tr @ polls poll_url (length pending) @ [HttpGet poll_url], rest))"
    if "content r = Some body \<and> py_getitem body ''error'' = Inr (JStr code) \<and>
          py_getitem body ''error_description'' = Inr (JStr description)"
    using raised is_correct_response_auth_message [OF auth, of body code description] that
    by simp
  ultimately show ?thesis by blast
qed

theorem auth_failure_ends_polling_witness:
  "submit_matrix example_env example_matrix_args
     ([], [Inr example_accepted, Inr example_unauthorized, Inr example_done])
     = (Returns ''https://s/m1?apiKey=KEY'',
        ([example_post], map Inr [] @ Inr example_unauthorized # [Inr example_done]))
   \<and> status_code example_unauthorized = 401
   \<and> content example_unauthorized = Some example_unauthorized_body
   \<and> py_getitem example_unauthorized_body ''error'' = Inr (JStr ''Unauthorized'')
   \<and> py_getitem example_unauthorized_body ''error_description'' = Inr (JStr ''bad key'')
   \<and> async_matrix example_env example_matrix_args
        ([], [Inr example_accepted, Inr example_unauthorized, Inr example_done])
     = (Raises (HEREError (JStr
          ''Error occured on __is_correct_response: Unauthorized, description: bad key'')),
        ([example_post, HttpGet ''https://s/m1?apiKey=KEY''], [Inr example_done]))"
proof -
  have sub: "submit_matrix example_env example_matrix_args
     ([], [Inr example_accepted, Inr example_unauthorized, Inr example_done])
     = (Returns ''https://s/m1?apiKey=KEY'',
        ([example_post], map Inr [] @ Inr example_unauthorized # [Inr example_done]))"
    by code_simp
  have run: "\<forall>p \<in> set []. keeps_polling p"
    by simp
  have auth: "status_code example_unauthorized = 401 \<or> status_code example_unauthorized = 403"
    by (simp add: example_unauthorized_def)
  have body: "content example_unauthorized = Some example_unauthorized_body"
    "py_getitem example_unauthorized_body ''error'' = Inr (JStr ''Unauthorized'')"
    "py_getitem example_unauthorized_body ''error_description'' = Inr (JStr ''bad key'')"
    by (simp_all add: example_unauthorized_def example_unauthorized_body_def)
  show ?thesis
    using sub body
      auth_failure_ends_polling [OF sub run auth, of example_unauthorized_body
        "''Unauthorized''" "''bad key''"]
    by (simp add: polls_def example_unauthorized_def)
qed

text \<open>
  Claim C8, as amended. A maneuver step whose instruction string does not contain the
  opening delimiter (\<open>number_open\<close> for the vehicle summarizer, \<open>next_street_open\<close>
  for the non-vehicle one) raises nothing and adds no entry: the summary is that of the
  maneuver without the step. On the empty list each of the three summarizers returns the
  empty string. (A missing closing delimiter does not make a step disappear: see the
  counterexample after the theorem.)
\<close>

theorem step_without_opening_tag_is_skipped:
  "(has_instruction step s \<and> \<not> sublist number_open s \<longrightarrow>
      vehicle_step names step = Inr names \<and>
      get_route_from_vehicle_maneuver (before @ step # after) =
        get_route_from_vehicle_maneuver (before @ after))
   \<and>
   (has_instruction step s \<and> \<not> sublist next_street_open s \<longrightarrow>
      non_vehicle_step names step = Inr names \<and>
      get_route_from_non_vehicle_maneuver (before @ step # after) =
        get_route_from_non_vehicle_maneuver (before @ after))
   \<and> get_route_from_vehicle_maneuver [] = Inr []
   \<and> get_route_from_non_vehicle_maneuver [] = Inr []
   \<and> get_route_from_public_transport_line [] = Inr []"
proof (intro conjI impI)
  assume h: "has_instruction step s \<and> \<not> sublist number_open s"
  then have skip: "vehicle_step acc step = Inr acc" for acc
    using vehicle_step_no_number [of step s acc] by simp
  show "vehicle_step names step = Inr names"
    by (rule skip)
  from skip show "get_route_from_vehicle_maneuver (before @ step # after) =
        get_route_from_vehicle_maneuver (before @ after)"
    by (simp add: get_route_from_vehicle_maneuver_def vehicle_road_names_def for_steps_skip)
next
  assume h: "has_instruction step s \<and> \<not> sublist next_street_open s"
  then have skip: "non_vehicle_step acc step = Inr acc" for acc
    using non_vehicle_step_no_street [of step s acc] by simp
  show "non_vehicle_step names step = Inr names"
    by (rule skip)
  from skip show "get_route_from_non_vehicle_maneuver (before @ step # after) =
        get_route_from_non_vehicle_maneuver (before @ after)"
    by (simp add: get_route_from_non_vehicle_maneuver_def non_vehicle_road_names_def
        for_steps_skip)
qed (simp_all add: get_route_from_vehicle_maneuver_def vehicle_road_names_def
    get_route_from_non_vehicle_maneuver_def non_vehicle_road_names_def
    get_route_from_public_transport_line_def)

theorem step_without_opening_tag_is_skipped_witness:
  \<open>has_instruction (JObj [(''instruction'', JStr ''Arrive at <b>Main St</b>'')])
      ''Arrive at <b>Main St</b>''
   \<and> \<not> sublist number_open ''Arrive at <b>Main St</b>''
   \<and> \<not> sublist next_street_open ''Arrive at <b>Main St</b>''
   \<and> get_route_from_vehicle_maneuver
        ([] @ JObj [(''instruction'', JStr ''Arrive at <b>Main St</b>'')] # []) = Inr []
   \<and> get_route_from_non_vehicle_maneuver
        ([] @ JObj [(''instruction'', JStr ''Arrive at <b>Main St</b>'')] # []) = Inr []\<close>
proof -
  have h: \<open>has_instruction (JObj [(''instruction'', JStr ''Arrive at <b>Main St</b>'')])
      ''Arrive at <b>Main St</b>''\<close>
    by (simp add: has_instruction_def)
  have a: \<open>\<not> sublist number_open ''Arrive at <b>Main St</b>''\<close>
    by code_simp
  have b: \<open>\<not> sublist next_street_open ''Arrive at <b>Main St</b>''\<close>
    by code_simp
  show ?thesis
    using h a b
      step_without_opening_tag_is_skipped
        [where step = \<open>JObj [(''instruction'', JStr ''Arrive at <b>Main St</b>'')]\<close>
           and s = \<open>''Arrive at <b>Main St</b>''\<close> and before = "[]" and after = "[]"]
    by simp
qed

theorem missing_closing_tag_counterexample:
  \<open>\<not> sublist span_close ''Head toward <span class="next-street">Main St''
   \<and> get_route_from_non_vehicle_maneuver
        [JObj [(''instruction'', JStr ''Head toward <span class="next-street">Main St'')]]
      = Inr ''Main St''
   \<and> \<not> sublist span_close ''Take <span class="number">A1''
   \<and> get_route_from_vehicle_maneuver
        [JObj [(''instruction'', JStr ''Take <span class="number">A1'')]]
      = Inr ''A1''\<close>
  by code_simp

text \<open>
  Claim C9. The public-transport summarizer emits \<open>name @ '' - '' @ destination\<close> for
  every segment, in order, with no entry dropped and none skipped, and joins the entries
  with \<open>''; ''\<close>: for segments that carry a line name and a destination the result is
  that string; whenever the summarizer returns, every segment carried both and has its
  entry in the result; and a segment that lacks a field makes the summarizer raise instead
  of leaving the segment out. The witness has the two-segment input of the specification,
  which yields \<open>''U1 - X; U2 - Y''\<close>, a line that occurs twice in a row, which is
  emitted twice, and a segment without destination, which raises KeyError.
\<close>

theorem public_transport_summary:
  "(list_all2 has_line segments lines \<longrightarrow>
      get_route_from_public_transport_line segments =
        Inr (py_join ''; '' (map spec_line_entry lines)))
   \<and> (get_route_from_public_transport_line segments = Inr r \<longrightarrow>
        (\<exists>lines. list_all2 has_line segments lines \<and>
           r = py_join ''; '' (map spec_line_entry lines)))
   \<and> ((\<exists>seg \<in> set segments. \<forall>nd. \<not> has_line seg nd) \<longrightarrow>
        (\<exists>e. get_route_from_public_transport_line segments = Inl e))"
proof -
  have forward: "get_route_from_public_transport_line segments =
        Inr (py_join ''; '' (map spec_line_entry lines))"
    if h: "list_all2 has_line segments lines" for lines
    using line_loop [OF h, of "[]"]
    by (simp add: get_route_from_public_transport_line_def)
  have backward: "\<exists>lines. list_all2 has_line segments lines \<and>
           r = py_join ''; '' (map spec_line_entry lines)"
    if ret: "get_route_from_public_transport_line segments = Inr r" for r
  proof -
    from ret obtain ls where "for_steps line_step [] segments = Inr ls"
      by (auto simp add: get_route_from_public_transport_line_def split: sum.splits)
    then obtain lines where i: "list_all2 has_line segments lines"
      using for_steps_all [where body = line_step and P = has_line]
        line_step_has_line by blast
    with forward [OF i] ret show ?thesis by auto
  qed
  have raises: "\<exists>e. get_route_from_public_transport_line segments = Inl e"
    if bad: "\<exists>seg \<in> set segments. \<forall>nd. \<not> has_line seg nd"
  proof (cases "get_route_from_public_transport_line segments")
    case (Inl e)
    then show ?thesis by blast
  next
    case (Inr r')
    from backward [OF Inr] obtain lines where l: "list_all2 has_line segments lines"
      by blast
    from bad obtain seg where "seg \<in> set segments" and none: "\<forall>nd. \<not> has_line seg nd"
      by blast
    then obtain i where "i < length segments" and "segments ! i = seg"
      by (auto simp add: in_set_conv_nth)
    with l have "has_line seg (lines ! i)"
      using list_all2_nthD [of has_line segments lines i] by simp
    with none show ?thesis by blast
  qed
  from forward backward raises show ?thesis by blast
qed

theorem public_transport_summary_witness:
  "list_all2 has_line
     [JObj [(''lineName'', JStr ''U1''), (''destination'', JStr ''X'')],
      JObj [(''lineName'', JStr ''U2''), (''destination'', JStr ''Y'')]]
     [(''U1'', ''X''), (''U2'', ''Y'')]
   \<and> get_route_from_public_transport_line
     [JObj [(''lineName'', JStr ''U1''), (''destination'', JStr ''X'')],
      JObj [(''lineName'', JStr ''U2''), (''destination'', JStr ''Y'')]]
     = Inr ''U1 - X; U2 - Y''
   \<and> (\<exists>lines.
         list_all2 has_line
           [JObj [(''lineName'', JStr ''U1''), (''destination'', JStr ''X'')],
            JObj [(''lineName'', JStr ''U2''), (''destination'', JStr ''Y'')]]
           lines
         \<and> ''U1 - X; U2 - Y'' = py_join ''; '' (map spec_line_entry lines))
   \<and> get_route_from_public_transport_line
     [JObj [(''lineName'', JStr ''U1''), (''destination'', JStr ''X'')],
      JObj [(''lineName'', JStr ''U1''), (''destination'', JStr ''X'')]]
     = Inr ''U1 - X; U1 - X''
   \<and> (\<forall>nd. \<not> has_line (JObj [(''lineName'', JStr ''U2'')]) nd)
   \<and> (\<exists>e. get_route_from_public_transport_line
         [JObj [(''lineName'', JStr ''U1''), (''destination'', JStr ''X'')],
          JObj [(''lineName'', JStr ''U2'')]] = Inl e)
   \<and> get_route_from_public_transport_line
         [JObj [(''lineName'', JStr ''U1''), (''destination'', JStr ''X'')],
          JObj [(''lineName'', JStr ''U2'')]] = Inl KeyError"
proof -
  have h: "list_all2 has_line
     [JObj [(''lineName'', JStr ''U1''), (''destination'', JStr ''X'')],
      JObj [(''lineName'', JStr ''U2''), (''destination'', JStr ''Y'')]]
     [(''U1'', ''X''), (''U2'', ''Y'')]"
    by (simp add: has_line_def)
  have d: "list_all2 has_line
     [JObj [(''lineName'', JStr ''U1''), (''destination'', JStr ''X'')],
      JObj [(''lineName'', JStr ''U1''), (''destination'', JStr ''X'')]]
     [(''U1'', ''X''), (''U1'', ''X'')]"
    by (simp add: has_line_def)
  have r: "get_route_from_public_transport_line
     [JObj [(''lineName'', JStr ''U1''), (''destination'', JStr ''X'')],
      JObj [(''lineName'', JStr ''U2''), (''destination'', JStr ''Y'')]]
     = Inr ''U1 - X; U2 - Y''"
    using public_transport_summary [THEN conjunct1, THEN mp, OF h]
    by (simp add: spec_line_entry_def)
  have r2: "get_route_from_public_transport_line
     [JObj [(''lineName'', JStr ''U1''), (''destination'', JStr ''X'')],
      JObj [(''lineName'', JStr ''U1''), (''destination'', JStr ''X'')]]
     = Inr ''U1 - X; U1 - X''"
    using public_transport_summary [THEN conjunct1, THEN mp, OF d]
    by (simp add: spec_line_entry_def)
  have b: "\<forall>nd. \<not> has_line (JObj [(''lineName'', JStr ''U2'')]) nd"
    by (simp add: has_line_def)
  then have bad: "\<exists>seg \<in> set [JObj [(''lineName'', JStr ''U1''), (''destination'', JStr ''X'')],
          JObj [(''lineName'', JStr ''U2'')]]. \<forall>nd. \<not> has_line seg nd"
    by simp
  have k: "get_route_from_public_transport_line
         [JObj [(''lineName'', JStr ''U1''), (''destination'', JStr ''X'')],
          JObj [(''lineName'', JStr ''U2'')]] = Inl KeyError"
    by code_simp
  from public_transport_summary [THEN conjunct2, THEN conjunct1, THEN mp, OF r]
    public_transport_summary [THEN conjunct2, THEN conjunct2, THEN mp, OF bad]
    h r r2 b k
  show ?thesis by blast
qed

text \<open>
  Claim C10. In the vehicle summarizer a step whose instruction has a next-street span but
  no number span leaves the list of entries as it is: the street name, although
  extractable, is not emitted, since the street is looked for only after the number was
  found.
\<close>

theorem street_without_number_is_skipped:
  assumes "has_instruction step s"
    and "sublist next_street_open s"
    and "\<not> sublist number_open s"
  shows "vehicle_step names step = Inr names
     \<and> (\<exists>street. extractable next_street_open s = Some street)
     \<and> spec_vehicle_entry s = None
     \<and> vehicle_road_names [step] = Inr []"
proof -
  have "vehicle_step names step = Inr names" for names
    using vehicle_step_no_number [OF assms(1) assms(3)] .
  moreover have "\<exists>street. extractable next_street_open s = Some street"
    using assms(2) extractable_None [of next_street_open s] by (auto simp add: tags_ne)
  moreover have "spec_vehicle_entry s = None"
    using assms(3) extractable_None [of number_open s]
    by (simp add: spec_vehicle_entry_def tags_ne)
  ultimately show ?thesis
    by (simp add: vehicle_road_names_def)
qed

theorem street_without_number_is_skipped_witness:
  \<open>has_instruction
      (JObj [(''instruction'', JStr ''Turn onto <span class="next-street">Main St</span>'')])
      ''Turn onto <span class="next-street">Main St</span>''
   \<and> sublist next_street_open ''Turn onto <span class="next-street">Main St</span>''
   \<and> \<not> sublist number_open ''Turn onto <span class="next-street">Main St</span>''
   \<and> extractable next_street_open ''Turn onto <span class="next-street">Main St</span>''
       = Some ''Main St''
   \<and> vehicle_road_names
       [JObj [(''instruction'', JStr ''Turn onto <span class="next-street">Main St</span>'')]]
       = Inr []\<close>
proof -
  have h: \<open>has_instruction
      (JObj [(''instruction'', JStr ''Turn onto <span class="next-street">Main St</span>'')])
      ''Turn onto <span class="next-street">Main St</span>''\<close>
    by (simp add: has_instruction_def)
  have a: \<open>sublist next_street_open ''Turn onto <span class="next-street">Main St</span>''\<close>
    by code_simp
  have b: \<open>\<not> sublist number_open ''Turn onto <span class="next-street">Main St</span>''\<close>
    by code_simp
  have c: \<open>extractable next_street_open ''Turn onto <span class="next-street">Main St</span>''
       = Some ''Main St''\<close>
    by code_simp
  show ?thesis
    using h a b c street_without_number_is_skipped [OF h a b] by simp
qed

end
